theory Spec2Isabelle
  imports Complex_Main "HOL-Library.Log_Nat"
begin

section \<open>Strings and regular-expression scanning\<close>

text \<open>
  A JavaScript string is a sequence of UTF-16 code units. A code unit is modelled by its
  number, an integer (from 0 to 65535 in every string the program can hold), so that the
  characters the script uses beyond ASCII (the em dash of its messages, the zero-width
  marks it strips) are ordinary values. \<open>lit\<close> turns an ASCII literal into such a string.
\<close>

type_synonym jstring = "int list"

definition lit :: "string \<Rightarrow> jstring" where
  "lit = map of_char"

definition isDigit :: "int \<Rightarrow> bool" where
  \<comment> \<open>the class written d (with a backslash) in the script's patterns: 0 to 9\<close>
  "isDigit c \<longleftrightarrow> 48 \<le> c \<and> c \<le> 57"

definition isSpace :: "int \<Rightarrow> bool" where
  \<comment> \<open>the class written s: ECMAScript WhiteSpace and LineTerminator\<close>
  "isSpace c \<longleftrightarrow>
     (9 \<le> c \<and> c \<le> 13) \<or> c = 32 \<or> c = 160 \<or> c = 5760 \<or> (8192 \<le> c \<and> c \<le> 8202) \<or>
     c = 8232 \<or> c = 8233 \<or> c = 8239 \<or> c = 8287 \<or> c = 12288 \<or> c = 65279"

definition isUpper :: "int \<Rightarrow> bool" where
  "isUpper c \<longleftrightarrow> 65 \<le> c \<and> c \<le> 90"

definition isLower :: "int \<Rightarrow> bool" where
  "isLower c \<longleftrightarrow> 97 \<le> c \<and> c \<le> 122"

definition isAlpha :: "int \<Rightarrow> bool" where
  \<comment> \<open>the class [A-Za-z]\<close>
  "isAlpha c \<longleftrightarrow> isUpper c \<or> isLower c"

definition isWord :: "int \<Rightarrow> bool" where
  \<comment> \<open>the class written w: [A-Za-z0-9_]\<close>
  "isWord c \<longleftrightarrow> isAlpha c \<or> isDigit c \<or> c = 95"

definition upperChar :: "int \<Rightarrow> int" where
  "upperChar c = (if isLower c then c - 32 else c)"

definition lowerChar :: "int \<Rightarrow> int" where
  "lowerChar c = (if isUpper c then c + 32 else c)"

text \<open>
  A pattern is modelled by the function that tries it at the start of a suffix of the
  subject: it gets the code unit before that suffix (for word boundaries and one-character
  lookbehind) and the suffix, and returns what the match yields together with the number
  of code units matched. Every pattern of the script matches at least one code unit.
  \<open>gmatch\<close> and \<open>greplace\<close> are \<open>String.prototype.match\<close> and \<open>replace\<close> with
  a global pattern: scan from the left, and after a match go on behind it. The first
  numeric argument counts the code units of the current match still to be skipped.
\<close>

type_synonym 'a pattern = "int option \<Rightarrow> jstring \<Rightarrow> ('a \<times> nat) option"

fun gmatch :: "'a pattern \<Rightarrow> nat \<Rightarrow> int option \<Rightarrow> jstring \<Rightarrow> 'a list" where
  "gmatch re k p [] = []"
| "gmatch re (Suc k) p (c # cs) = gmatch re k (Some c) cs"
| "gmatch re 0 p (c # cs) =
     (case re p (c # cs) of
        None \<Rightarrow> gmatch re 0 (Some c) cs
      | Some (a, n) \<Rightarrow> a # gmatch re (n - 1) (Some c) cs)"

fun greplace :: "'a pattern \<Rightarrow> ('a \<Rightarrow> jstring) \<Rightarrow> nat \<Rightarrow> int option \<Rightarrow> jstring \<Rightarrow> jstring" where
  "greplace re f k p [] = []"
| "greplace re f (Suc k) p (c # cs) = greplace re f k (Some c) cs"
| "greplace re f 0 p (c # cs) =
     (case re p (c # cs) of
        None \<Rightarrow> c # greplace re f 0 (Some c) cs
      | Some (a, n) \<Rightarrow> f a @ greplace re f (n - 1) (Some c) cs)"

definition optChar :: "(int \<Rightarrow> bool) \<Rightarrow> jstring \<Rightarrow> jstring" where
  \<comment> \<open>an optional single code unit of a class, taken when it is there\<close>
  "optChar P s = (case s of [] \<Rightarrow> [] | c # _ \<Rightarrow> if P c then [c] else [])"

definition optFraction :: "jstring \<Rightarrow> jstring" where
  \<comment> \<open>the optional group: a dot followed by one or more digits\<close>
  "optFraction s =
     (case s of
        c # d # r \<Rightarrow> if c = 46 \<and> isDigit d then c # takeWhile isDigit (d # r) else []
      | _ \<Rightarrow> [])"

definition isSuffixChar :: "int \<Rightarrow> bool" where
  \<comment> \<open>the class [kKmM%]\<close>
  "isSuffixChar c \<longleftrightarrow> c = 107 \<or> c = 75 \<or> c = 109 \<or> c = 77 \<or> c = 37"

section \<open>Numbers\<close>

text \<open>
  A JavaScript number is an IEEE 754 double-precision value: a finite value, given here
  by the rational it stands for, one of the two infinities, or NaN. Every operation gives
  the exact result rounded to the nearest double, ties to the even significand
  (\<open>rnd\<close>): 53 significant bits, exponents from -1074 for the last bit of a subnormal
  number, and infinity from \<open>2 ^ 1024\<close> on. The sign of zero is not kept: the script
  only tests zero for truth, compares it and subtracts, and its divisors are 100 and a
  number that is at least 1.
\<close>

datatype dbl = Fin rat | PInf | NInf | NaN

definition pow2 :: "int \<Rightarrow> rat" where
  "pow2 k = (if 0 \<le> k then 2 ^ nat k else 1 / 2 ^ nat (- k))"

definition floorLog2 :: "rat \<Rightarrow> int" where
  \<comment> \<open>for a positive a, the e with \<open>pow2 e \<le> a < pow2 (e + 1)\<close>; the difference of the bit
      lengths of numerator and denominator is e or e + 1\<close>
  "floorLog2 a =
     (let k = bitlen (fst (quotient_of a)) - bitlen (snd (quotient_of a))
      in if pow2 k \<le> a then k else k - 1)"

definition roundHalfEven :: "rat \<Rightarrow> int" where
  "roundHalfEven m =
     (let f = \<lfloor>m\<rfloor>; d = m - of_int f
      in if d < 1 / 2 then f else if 1 / 2 < d then f + 1 else if even f then f else f + 1)"

definition rnd :: "rat \<Rightarrow> dbl" where
  \<comment> \<open>u is the exponent of the last bit of the significand, r the significand as an
      integer, at most \<open>2 ^ 53\<close>\<close>
  "rnd x =
     (if x = 0 then Fin 0
      else
        let a = \<bar>x\<bar>; e = floorLog2 a; u = max (e - 52) (- 1074);
            r = roundHalfEven (a / pow2 u)
        in if 1024 \<le> e \<or> (e = 1023 \<and> r = 9007199254740992)
           then (if 0 < x then PInf else NInf)
           else Fin ((if 0 < x then 1 else - 1) * of_int r * pow2 u))"

definition fabs :: "dbl \<Rightarrow> dbl" where
  \<comment> \<open>\<open>Math.abs\<close>\<close>
  "fabs a = (case a of Fin x \<Rightarrow> Fin \<bar>x\<bar> | PInf \<Rightarrow> PInf | NInf \<Rightarrow> PInf | NaN \<Rightarrow> NaN)"

definition fsub :: "dbl \<Rightarrow> dbl \<Rightarrow> dbl" where
  "fsub a b =
     (case a of
        NaN \<Rightarrow> NaN
      | Fin x \<Rightarrow> (case b of NaN \<Rightarrow> NaN | Fin y \<Rightarrow> rnd (x - y) | PInf \<Rightarrow> NInf | NInf \<Rightarrow> PInf)
      | PInf \<Rightarrow> (case b of NaN \<Rightarrow> NaN | PInf \<Rightarrow> NaN | _ \<Rightarrow> PInf)
      | NInf \<Rightarrow> (case b of NaN \<Rightarrow> NaN | NInf \<Rightarrow> NaN | _ \<Rightarrow> NInf))"

definition signedInf :: "bool \<Rightarrow> dbl" where
  "signedInf positive = (if positive then PInf else NInf)"

definition fmul :: "dbl \<Rightarrow> dbl \<Rightarrow> dbl" where
  "fmul a b =
     (case a of
        NaN \<Rightarrow> NaN
      | Fin x \<Rightarrow>
          (case b of
             NaN \<Rightarrow> NaN
           | Fin y \<Rightarrow> rnd (x * y)
           | PInf \<Rightarrow> if x = 0 then NaN else signedInf (0 < x)
           | NInf \<Rightarrow> if x = 0 then NaN else signedInf (x < 0))
      | PInf \<Rightarrow>
          (case b of
             NaN \<Rightarrow> NaN
           | Fin y \<Rightarrow> if y = 0 then NaN else signedInf (0 < y)
           | PInf \<Rightarrow> PInf
           | NInf \<Rightarrow> NInf)
      | NInf \<Rightarrow>
          (case b of
             NaN \<Rightarrow> NaN
           | Fin y \<Rightarrow> if y = 0 then NaN else signedInf (y < 0)
           | PInf \<Rightarrow> NInf
           | NInf \<Rightarrow> PInf))"

definition fdiv :: "dbl \<Rightarrow> dbl \<Rightarrow> dbl" where
  \<comment> \<open>a zero divisor, which the script never has, is taken as the positive zero\<close>
  "fdiv a b =
     (case a of
        NaN \<Rightarrow> NaN
      | Fin x \<Rightarrow>
          (case b of
             NaN \<Rightarrow> NaN
           | Fin y \<Rightarrow> if y = 0 then (if x = 0 then NaN else signedInf (0 < x)) else rnd (x / y)
           | PInf \<Rightarrow> Fin 0
           | NInf \<Rightarrow> Fin 0)
      | PInf \<Rightarrow>
          (case b of Fin y \<Rightarrow> signedInf (0 \<le> y) | _ \<Rightarrow> NaN)
      | NInf \<Rightarrow>
          (case b of Fin y \<Rightarrow> signedInf (y < 0) | _ \<Rightarrow> NaN))"

definition fmax :: "dbl \<Rightarrow> dbl \<Rightarrow> dbl" where
  \<comment> \<open>\<open>Math.max\<close> of two numbers\<close>
  "fmax a b =
     (case a of
        NaN \<Rightarrow> NaN
      | PInf \<Rightarrow> (case b of NaN \<Rightarrow> NaN | _ \<Rightarrow> PInf)
      | NInf \<Rightarrow> b
      | Fin x \<Rightarrow> (case b of NaN \<Rightarrow> NaN | PInf \<Rightarrow> PInf | NInf \<Rightarrow> Fin x | Fin y \<Rightarrow> Fin (max x y)))"

definition flt :: "dbl \<Rightarrow> dbl \<Rightarrow> bool" where
  \<comment> \<open>the comparison \<open><\<close>; \<open>a > b\<close> is \<open>flt b a\<close>\<close>
  "flt a b =
     (case a of
        NaN \<Rightarrow> False
      | PInf \<Rightarrow> False
      | NInf \<Rightarrow> (case b of Fin y \<Rightarrow> True | PInf \<Rightarrow> True | _ \<Rightarrow> False)
      | Fin x \<Rightarrow> (case b of Fin y \<Rightarrow> x < y | PInf \<Rightarrow> True | _ \<Rightarrow> False))"

definition fle :: "dbl \<Rightarrow> dbl \<Rightarrow> bool" where
  \<comment> \<open>the comparison \<open><=\<close>\<close>
  "fle a b =
     (case a of
        NaN \<Rightarrow> False
      | PInf \<Rightarrow> (case b of PInf \<Rightarrow> True | _ \<Rightarrow> False)
      | NInf \<Rightarrow> (case b of NaN \<Rightarrow> False | _ \<Rightarrow> True)
      | Fin x \<Rightarrow> (case b of Fin y \<Rightarrow> x \<le> y | PInf \<Rightarrow> True | _ \<Rightarrow> False))"

definition falsy :: "dbl \<Rightarrow> bool" where
  \<comment> \<open>a number that \<open>!\<close> takes for false: zero or NaN\<close>
  "falsy a \<longleftrightarrow> a = Fin 0 \<or> a = NaN"

section \<open>Numeric verification\<close>

subsection \<open>The numeric-looking substrings of the grounding check\<close>

text \<open>
  The pattern of the grounding block in both summarizers: an optional dollar sign,
  white space, a digit, digits and commas, an optional fraction, white space, an optional
  suffix out of k, K, m, M and the percent sign. Each piece is greedy, and everything
  behind the first digit may match the empty string, so the greedy choice is the match;
  before the first digit, giving back the dollar sign or a white space leaves a code unit
  that is no digit, so there is nothing to backtrack to either.
\<close>

definition numRe :: "jstring \<Rightarrow> jstring option" where
  \<comment> \<open>\<^verbatim>\<open>/\$?\s*\d[\d,]*(?:\.\d+)?\s*[kKmM%]?/g\<close> at the start of s: the matched text\<close>
  "numRe s =
     (let a = optChar (\<lambda>c. c = 36) s; s1 = drop (length a) s;
          b = takeWhile isSpace s1; s2 = dropWhile isSpace s1
      in case s2 of
           [] \<Rightarrow> None
         | d # s3 \<Rightarrow>
             if \<not> isDigit d then None
             else
               let c = takeWhile (\<lambda>x. isDigit x \<or> x = 44) s3;
                   s4 = dropWhile (\<lambda>x. isDigit x \<or> x = 44) s3;
                   f = optFraction s4; s5 = drop (length f) s4;
                   w = takeWhile isSpace s5; s6 = dropWhile isSpace s5;
                   u = optChar isSuffixChar s6
               in Some (a @ b @ [d] @ c @ f @ w @ u))"

definition numPat :: "jstring pattern" where
  "numPat p s = map_option (\<lambda>m. (m, length m)) (numRe s)"

definition numMatches :: "jstring \<Rightarrow> jstring list" where
  \<comment> \<open>\<open>serialized.match(...) || []\<close>\<close>
  "numMatches s = gmatch numPat 0 None s"

definition scrub :: "jstring \<Rightarrow> jstring" where
  \<comment> \<open>\<open>scrub = s => String(s).replace(..., 'x')\<close>\<close>
  "scrub s = greplace numPat (\<lambda>_. [120]) 0 None s"

subsection \<open>parseNumericTokens\<close>

record numtoken =
  raw :: jstring
  val :: dbl
  isPercent :: bool
  isUSD :: bool

definition digitsVal :: "jstring \<Rightarrow> int" where
  "digitsVal ds = foldl (\<lambda>a c. 10 * a + (c - 48)) 0 ds"

definition decimalValue :: "jstring \<Rightarrow> rat" where
  \<comment> \<open>the mathematical value of digits with an optional fraction\<close>
  "decimalValue s =
     (let ip = takeWhile isDigit s; fr = drop 1 (dropWhile isDigit s)
      in of_int (digitsVal ip) + of_int (digitsVal fr) / 10 ^ length fr)"

definition toNumber :: "jstring \<Rightarrow> dbl" where
  \<comment> \<open>\<open>Number(num)\<close> for digits with an optional fraction: the mathematical value,
      rounded to the nearest double (Node rounds correctly whatever the number of digits)\<close>
  "toNumber s = rnd (decimalValue s)"

fun commaGroups :: "jstring \<Rightarrow> jstring" where
  \<comment> \<open>the starred group: a comma and exactly three digits, as often as it is there\<close>
  "commaGroups (c # d1 # d2 # d3 # r) =
     (if c = 44 \<and> isDigit d1 \<and> isDigit d2 \<and> isDigit d3
      then c # d1 # d2 # d3 # commaGroups r else [])"
| "commaGroups _ = []"

definition groupedNumber :: "jstring \<Rightarrow> jstring option" where
  \<comment> \<open>first alternative of group 1: one to three digits, comma groups, optional fraction\<close>
  "groupedNumber s =
     (let d = takeWhile isDigit (take 3 s)
      in if d = [] then None
         else let s1 = drop (length d) s; g = commaGroups s1;
                  f = optFraction (drop (length g) s1)
              in Some (d @ g @ f))"

definition plainNumber :: "jstring \<Rightarrow> jstring option" where
  \<comment> \<open>second alternative of group 1: digits, optional fraction\<close>
  "plainNumber s =
     (let d = takeWhile isDigit s
      in if d = [] then None else Some (d @ optFraction (dropWhile isDigit s)))"

definition numberGroup :: "jstring \<Rightarrow> jstring option" where
  \<comment> \<open>the alternation is ordered: the second alternative is tried only where the first
      fails, for what follows the group can always match\<close>
  "numberGroup s = (case groupedNumber s of Some g \<Rightarrow> Some g | None \<Rightarrow> plainNumber s)"

definition tokenPat :: "numtoken pattern" where
  \<comment> \<open>\<^verbatim>\<open>/\$?\s*(\d{1,3}(?:,\d{3})*(?:\.\d+)?|\d+(?:\.\d+)?)\s*([kKmM%])?/g\<close> and the
      body of the loop of \<open>parseNumericTokens\<close>: g1 and g2 are the groups, m0 the match\<close>
  "tokenPat p s =
     (let a = optChar (\<lambda>c. c = 36) s; s1 = drop (length a) s;
          b = takeWhile isSpace s1; s2 = dropWhile isSpace s1
      in case numberGroup s2 of
           None \<Rightarrow> None
         | Some g1 \<Rightarrow>
             let s3 = drop (length g1) s2;
                 w = takeWhile isSpace s3; s4 = dropWhile isSpace s3;
                 g2 = optChar isSuffixChar s4;
                 m0 = a @ b @ g1 @ w @ g2;
                 num = filter (\<lambda>c. c \<noteq> 44) g1;
                 suf = map lowerChar g2;
                 v = toNumber num;
                 v' = (if suf = [107] then fmul v (Fin 1000)
                       else if suf = [109] then fmul v (Fin 1000000) else v)
             in Some (\<lparr>raw = m0, val = v',
                       isPercent = (suf = [37] \<or> 37 \<in> set m0),
                       isUSD = (dropWhile isSpace m0 \<noteq> [] \<and> hd (dropWhile isSpace m0) = 36)\<rparr>,
                      length m0))"

definition parseNumericTokens :: "jstring \<Rightarrow> numtoken list" where
  "parseNumericTokens s = gmatch tokenPat 0 None s"

definition normRaw :: "jstring \<Rightarrow> jstring" where
  \<comment> \<open>\<open>r.replace(/[,\s\$]/g,'').toLowerCase()\<close>; what is left of a token's text is digits,
      a dot and a suffix, on which lower-casing is the ASCII one\<close>
  "normRaw r = map lowerChar (filter (\<lambda>c. \<not> (c = 44 \<or> isSpace c \<or> c = 36)) r)"

definition tokenMatches :: "numtoken \<Rightarrow> numtoken \<Rightarrow> bool" where
  \<comment> \<open>the test inside \<open>tnums.some\<close>; w is the wanted token, t the transcript's\<close>
  "tokenMatches w t =
     (if isPercent w \<noteq> isPercent t then False
      else if normRaw (raw w) = normRaw (raw t) then True
      else let denom = fmax (Fin 1) (fabs (val w));
               rel = fdiv (fabs (fsub (val w) (val t))) denom
           in fle rel (rnd (1 / 100)))"

definition appearsInTranscriptHuman :: "jstring \<Rightarrow> jstring \<Rightarrow> bool" where
  "appearsInTranscriptHuman nRaw transcript =
     (let want = parseNumericTokens nRaw
      in if want = [] then False
         else let tnums = parseNumericTokens transcript
              in list_all (\<lambda>w. list_ex (\<lambda>t. tokenMatches w t) tnums) want)"

section \<open>The summary and its serialization\<close>

text \<open>
  The long form is the object of the prompt's schema, every text field a string. The
  fields \<open>context\<close> and \<open>note\<close> of the script are \<open>lcontext\<close> and \<open>lnote\<close> here,
  and the \<open>notes\<close> of a key level are \<open>knotes\<close>; a long form without a note has
  \<open>lnote = None\<close>.
\<close>

record key_level =
  asset :: jstring
  level :: jstring
  direction :: jstring
  knotes :: jstring

record trade_setup =
  name :: jstring
  thesis :: jstring
  trigger :: jstring
  invalidation :: jstring
  targets :: jstring

record long_form =
  lcontext :: jstring
  key_levels :: "key_level list"
  setups :: "trade_setup list"
  takeaways :: "jstring list"
  catalysts :: "jstring list"
  notable_details :: "jstring list"
  lnote :: "jstring option"

fun joinWith :: "jstring \<Rightarrow> jstring list \<Rightarrow> jstring" where
  \<comment> \<open>\<open>Array.prototype.join\<close>\<close>
  "joinWith sep [] = []"
| "joinWith sep [x] = x"
| "joinWith sep (x # y # ys) = x @ sep @ joinWith sep (y # ys)"

definition hexDigit :: "int \<Rightarrow> int" where
  "hexDigit h = (if h < 10 then 48 + h else 87 + h)"

definition unicodeEscape :: "int \<Rightarrow> jstring" where
  \<comment> \<open>backslash, u and four lower-case hexadecimal digits\<close>
  "unicodeEscape c =
     [92, 117, hexDigit (c div 4096), hexDigit (c div 256 mod 16),
      hexDigit (c div 16 mod 16), hexDigit (c mod 16)]"

definition isHighSurrogate :: "int \<Rightarrow> bool" where
  "isHighSurrogate c \<longleftrightarrow> 55296 \<le> c \<and> c \<le> 56319"

definition isLowSurrogate :: "int \<Rightarrow> bool" where
  "isLowSurrogate c \<longleftrightarrow> 56320 \<le> c \<and> c \<le> 57343"

fun quoteBody :: "jstring \<Rightarrow> jstring" where
  \<comment> \<open>QuoteJSONString between its quotes: short escapes, control characters and lone
      surrogates as unicode escapes, everything else as it is\<close>
  "quoteBody [] = []"
| "quoteBody (c # cs) =
     (if c = 8 then [92, 98] @ quoteBody cs
      else if c = 9 then [92, 116] @ quoteBody cs
      else if c = 10 then [92, 110] @ quoteBody cs
      else if c = 12 then [92, 102] @ quoteBody cs
      else if c = 13 then [92, 114] @ quoteBody cs
      else if c = 34 then [92, 34] @ quoteBody cs
      else if c = 92 then [92, 92] @ quoteBody cs
      else if c < 32 then unicodeEscape c @ quoteBody cs
      else if isHighSurrogate c then
        (case cs of
           [] \<Rightarrow> unicodeEscape c
         | d # ds \<Rightarrow>
             if isLowSurrogate d then c # d # quoteBody ds
             else unicodeEscape c @ quoteBody cs)
      else if isLowSurrogate c then unicodeEscape c @ quoteBody cs
      else c # quoteBody cs)"

definition jsonString :: "jstring \<Rightarrow> jstring" where
  "jsonString s = [34] @ quoteBody s @ [34]"

definition jsonKey :: "string \<Rightarrow> jstring" where
  \<comment> \<open>a property name in quotes, and the colon\<close>
  "jsonKey k = [34] @ lit k @ [34, 58]"

definition jsonArray :: "jstring list \<Rightarrow> jstring" where
  "jsonArray xs = [91] @ joinWith [44] xs @ [93]"

definition jsonObject :: "jstring list \<Rightarrow> jstring" where
  "jsonObject members = [123] @ joinWith [44] members @ [125]"

definition stringifyKeyLevel :: "key_level \<Rightarrow> jstring" where
  "stringifyKeyLevel kl =
     jsonObject
       [jsonKey ''asset'' @ jsonString (asset kl),
        jsonKey ''level'' @ jsonString (level kl),
        jsonKey ''direction'' @ jsonString (direction kl),
        jsonKey ''notes'' @ jsonString (knotes kl)]"

definition stringifySetup :: "trade_setup \<Rightarrow> jstring" where
  "stringifySetup st =
     jsonObject
       [jsonKey ''name'' @ jsonString (name st),
        jsonKey ''thesis'' @ jsonString (thesis st),
        jsonKey ''trigger'' @ jsonString (trigger st),
        jsonKey ''invalidation'' @ jsonString (invalidation st),
        jsonKey ''targets'' @ jsonString (targets st)]"

definition stringifyLong :: "long_form \<Rightarrow> jstring" where
  \<comment> \<open>\<open>JSON.stringify(long)\<close>, the properties in the order \<open>summarizeFree\<close> builds them
      and the prompt lists them; the note, when there is one, was added last\<close>
  "stringifyLong l =
     jsonObject
       ([jsonKey ''context'' @ jsonString (lcontext l),
         jsonKey ''key_levels'' @ jsonArray (map stringifyKeyLevel (key_levels l)),
         jsonKey ''setups'' @ jsonArray (map stringifySetup (setups l)),
         jsonKey ''takeaways'' @ jsonArray (map jsonString (takeaways l)),
         jsonKey ''catalysts'' @ jsonArray (map jsonString (catalysts l)),
         jsonKey ''notable_details'' @ jsonArray (map jsonString (notable_details l))]
        @ (case lnote l of None \<Rightarrow> [] | Some n \<Rightarrow> [jsonKey ''note'' @ jsonString n]))"

section \<open>The grounding block\<close>

text \<open>
  Both summarizers end with the same block: serialize the bullets and the long form, take
  the numeric-looking substrings, and if one of them is not found in the transcript,
  scrub. \<open>ground\<close> is that block.
\<close>

definition serialized :: "jstring list \<Rightarrow> long_form \<Rightarrow> jstring" where
  "serialized bullets l = joinWith [32] bullets @ [32] @ stringifyLong l"

definition hasUnseen :: "jstring list \<Rightarrow> long_form \<Rightarrow> jstring \<Rightarrow> bool" where
  "hasUnseen bullets l transcript =
     list_ex (\<lambda>n. \<not> appearsInTranscriptHuman n transcript) (numMatches (serialized bullets l))"

definition scrubNote :: jstring where
  "scrubNote = lit ''Numerical details scrubbed '' @ [8212] @ lit '' mismatch with transcript.''"

definition scrubbed :: "jstring list \<Rightarrow> long_form \<Rightarrow> jstring list \<times> long_form" where
  "scrubbed bullets l =
     (map scrub bullets,
      l\<lparr>lcontext := scrub (lcontext l),
        takeaways := map scrub (takeaways l),
        catalysts := map scrub (catalysts l),
        key_levels := map (\<lambda>kl. kl\<lparr>level := scrub (level kl), knotes := scrub (knotes kl)\<rparr>)
                        (key_levels l),
        notable_details := map scrub (notable_details l),
        lnote := Some scrubNote\<rparr>)"

definition ground :: "jstring list \<Rightarrow> long_form \<Rightarrow> jstring \<Rightarrow> jstring list \<times> long_form" where
  "ground bullets l transcript =
     (if hasUnseen bullets l transcript then scrubbed bullets l else (bullets, l))"

definition rewrittenFields :: "jstring list \<times> long_form \<Rightarrow> jstring list" where
  \<comment> \<open>the texts the scrub branch rewrites: bullets, context, takeaways, catalysts, the
      level and the notes of every key level, notable details\<close>
  "rewrittenFields r =
     (case r of (bullets, l) \<Rightarrow>
        bullets @ [lcontext l] @ takeaways l @ catalysts l @ map level (key_levels l)
        @ map knotes (key_levels l) @ notable_details l)"

definition emptyLong :: long_form where
  "emptyLong = \<lparr>lcontext = [], key_levels = [], setups = [], takeaways = [], catalysts = [],
                notable_details = [], lnote = None\<rparr>"


section \<open>The environment\<close>

text \<open>
  What the script reads from its configuration and gets from outside is a field of the
  environment: the Unicode functions of the host, whose tables are not part of the script;
  the feature flags; the answers of the price service, of the text-generation service, of
  the captions interface, of the transcript library, of the web and of the local
  speech-to-text programs. A rejected promise or a thrown exception is the left summand.
  \<^item> \<open>priceApi\<close>: the entries of the parsed reply, each with the number that is its
    \<open>usd\<close> property (\<open>None\<close>: there is no such number).
  \<^item> \<open>aiReply\<close>: from the transcript's first 6000 code units (the only part of the request
    that varies) to the reply after \<open>JSON.parse\<close>, read against the schema of the prompt;
    a reply that is no JSON is the empty reply.
  \<^item> \<open>scoreSentences\<close>: the sentence scores, which the script computes in floating point.
  \<^item> \<open>pageTracks\<close>: the caption tracks read from a page (\<open>extractPlayerResponse\<close>,
    \<open>JSON.parse\<close> and the fallback pattern, which all catch their own exceptions).
  \<^item> \<open>json3Text\<close>: the text of a caption payload in the JSON format, \<open>None\<close> when reading
    it throws (inside the script's try block).
  \<^item> \<open>whisperText\<close>: the audio download, the speech recognition and the reading of the
    text file, one after the other.
\<close>

datatype js_error = Thrown jstring

record llm_reply =
  tldr :: "jstring list"
  rlong :: long_form

record caption =
  cap_id :: jstring
  language :: jstring
  trackKind :: jstring

record caption_track =
  languageCode :: jstring
  simpleText :: jstring
  languageName :: jstring
  kind :: jstring
  isTranslatable :: bool
  baseUrl :: jstring

record http_response =
  res_ok :: bool
  res_text :: "js_error + jstring"

record env =
  nfkc :: "jstring \<Rightarrow> jstring"
  toUpperCase :: "jstring \<Rightarrow> jstring"
  toLowerCase :: "jstring \<Rightarrow> jstring"
  ALLOW_PRICE_LOOKUPS :: bool
  priceApi :: "jstring list \<Rightarrow> js_error + (jstring \<times> dbl option) list"
  FREE_MODE :: bool
  aiClient :: bool
  aiReply :: "jstring \<Rightarrow> js_error + llm_reply"
  scoreSentences :: "jstring list \<Rightarrow> rat list"
  oauthConfigured :: bool
  captionsList :: "jstring \<Rightarrow> js_error + caption list"
  captionsDownload :: "jstring \<Rightarrow> js_error + jstring"
  libTranscript :: "jstring \<Rightarrow> jstring \<Rightarrow> js_error + jstring list"
  encodeURIComponent :: "jstring \<Rightarrow> js_error + jstring"
  httpFetch :: "jstring \<Rightarrow> js_error + http_response"
  pageTracks :: "jstring \<Rightarrow> caption_track list"
  json3Text :: "jstring \<Rightarrow> jstring option"
  makeWorkDir :: "jstring \<Rightarrow> js_error + unit"
  whisperText :: "jstring \<Rightarrow> js_error + jstring"

datatype effect = PriceRequest "jstring list" | AiRequest jstring

definition TICKER_WHITELIST :: "jstring list" where
  "TICKER_WHITELIST = map lit
     [''BTC'', ''ETH'', ''SOL'', ''XRP'', ''ADA'', ''DOGE'', ''AVAX'', ''LINK'', ''SUI'', ''SEI'',
      ''APT'', ''ARB'', ''OP'', ''BONK'', ''WIF'', ''SPY'', ''QQQ'', ''DXY'', ''VIX'', ''USD'']"

section \<open>Price plausibility\<close>

definition COIN_MAP :: "(jstring \<times> jstring) list" where
  \<comment> \<open>the object \<open>MAP\<close> of \<open>spotPrices\<close>\<close>
  "COIN_MAP =
     [(lit ''BTC'', lit ''bitcoin''), (lit ''ETH'', lit ''ethereum''), (lit ''SOL'', lit ''solana''),
      (lit ''XRP'', lit ''ripple''), (lit ''ADA'', lit ''cardano''),
      (lit ''AVAX'', lit ''avalanche-2''), (lit ''LINK'', lit ''chainlink'')]"

definition symbolOfId :: "jstring \<Rightarrow> jstring" where
  \<comment> \<open>\<open>Object.keys(MAP).find(s => MAP[s] === k)\<close>, used as a property name: the name is
      \<open>undefined\<close> when nothing is found\<close>
  "symbolOfId k =
     (case find (\<lambda>s. map_of COIN_MAP s = Some k) (map fst COIN_MAP) of
        Some found \<Rightarrow> found
      | None \<Rightarrow> lit ''undefined'')"

definition spotPrices :: "env \<Rightarrow> jstring list \<Rightarrow> (jstring \<times> dbl option) list \<times> effect list" where
  \<comment> \<open>the result lists the assignments \<open>out[sym] = v.usd\<close> in their order; it is empty
      exactly when the returned object has no key\<close>
  "spotPrices e symbols =
     (if \<not> ALLOW_PRICE_LOOKUPS e \<or> symbols = [] then ([], [])
      else
        let ids = List.map_filter (map_of COIN_MAP) symbols
        in if ids = [] then ([], [])
           else
             (case priceApi e ids of
                Inl err \<Rightarrow> ([], [PriceRequest ids])
              | Inr j \<Rightarrow> (map (\<lambda>(k, v). (symbolOfId k, v)) j, [PriceRequest ids])))"

definition spotAt :: "(jstring \<times> dbl option) list \<Rightarrow> jstring \<Rightarrow> dbl option" where
  \<comment> \<open>\<open>spot[a]\<close>: the last assignment to the key counts; \<open>None\<close> is \<open>undefined\<close>\<close>
  "spotAt spot a = (case map_of (rev spot) a of None \<Rightarrow> None | Some v \<Rightarrow> v)"

definition levelNumber :: "jstring \<Rightarrow> dbl" where
  \<comment> \<open>\<open>Number(String(l.level||'').replace(/[^\d.]/g,''))\<close>: the empty string is 0, a lone
      dot or more than one dot is NaN, everything else the value rounded to the nearest
      double\<close>
  "levelNumber lv =
     (let ds = filter (\<lambda>c. isDigit c \<or> c = 46) lv;
          dots = length (filter (\<lambda>c. c = 46) ds)
      in if ds = [] then Fin 0
         else if dots = 0 then toNumber ds
         else if dots = 1 \<and> ds \<noteq> [46] then toNumber ds
         else NaN)"

definition noSpot :: "dbl option \<Rightarrow> bool" where
  \<comment> \<open>\<open>!spot[a]\<close>: nothing under the key, or zero, or NaN\<close>
  "noSpot v = (case v of None \<Rightarrow> True | Some x \<Rightarrow> falsy x)"

definition plausible :: "env \<Rightarrow> (jstring \<times> dbl option) list \<Rightarrow> key_level \<Rightarrow> bool" where
  \<comment> \<open>the function given to \<open>filter\<close> in \<open>filterImplausibleLevels\<close>\<close>
  "plausible e spot l =
     (let a = toUpperCase e (asset l); p = levelNumber (level l)
      in if a = [] \<or> falsy p \<or> noSpot (spotAt spot a) then True
         else flt (fdiv (the (spotAt spot a)) (Fin 100)) p \<and>
              flt p (fmul (the (spotAt spot a)) (Fin 100)))"

definition levelSymbols :: "env \<Rightarrow> long_form \<Rightarrow> jstring list" where
  \<comment> \<open>the distinct upper-cased assets, first occurrences in order, that are whitelisted\<close>
  "levelSymbols e l =
     filter (\<lambda>s. s \<in> set TICKER_WHITELIST)
       (rev (remdups (rev (map (\<lambda>kl. toUpperCase e (asset kl)) (key_levels l)))))"

definition filterImplausibleLevels :: "env \<Rightarrow> long_form \<Rightarrow> long_form \<times> effect list" where
  "filterImplausibleLevels e l =
     (let (spot, effs) = spotPrices e (levelSymbols e l)
      in if spot = [] then (l, effs)
         else (l\<lparr>key_levels := filter (plausible e spot) (key_levels l)\<rparr>, effs))"

section \<open>Text normalization\<close>

definition wsRunPat :: "unit pattern" where
  \<comment> \<open>one or more white-space code units\<close>
  "wsRunPat p s = (let w = takeWhile isSpace s in if w = [] then None else Some ((), length w))"

definition collapseWs :: "jstring \<Rightarrow> jstring" where
  \<comment> \<open>\<open>.replace(/\s+/g, ' ')\<close>\<close>
  "collapseWs s = greplace wsRunPat (\<lambda>_. [32]) 0 None s"

definition trim :: "jstring \<Rightarrow> jstring" where
  "trim s = rev (dropWhile isSpace (rev (dropWhile isSpace s)))"

definition foldQuote :: "int \<Rightarrow> int" where
  \<comment> \<open>curly double quotes to the straight one, curly single quotes to the apostrophe\<close>
  "foldQuote c = (if c = 8220 \<or> c = 8221 then 34 else if c = 8216 \<or> c = 8217 then 39 else c)"

definition normalizeTextBasic :: "env \<Rightarrow> jstring \<Rightarrow> jstring" where
  "normalizeTextBasic e s =
     trim (collapseWs (map foldQuote
       (filter (\<lambda>c. \<not> (c = 8203 \<or> c = 8204 \<or> c = 8205)) (nfkc e s))))"

definition startsWord :: "int option \<Rightarrow> bool" where
  \<comment> \<open>the word boundary in front of a word character: no word character before it\<close>
  "startsWord p = (case p of None \<Rightarrow> True | Some q \<Rightarrow> \<not> isWord q)"

definition endsWord :: "jstring \<Rightarrow> bool" where
  \<comment> \<open>the word boundary behind a word character: no word character after it\<close>
  "endsWord rest = (case rest of [] \<Rightarrow> True | c # _ \<Rightarrow> \<not> isWord c)"

fun spacedReps :: "nat \<Rightarrow> jstring \<Rightarrow> jstring list" where
  \<comment> \<open>up to n repetitions of: white space, then a letter\<close>
  "spacedReps 0 s = []"
| "spacedReps (Suc n) s =
     (let w = takeWhile isSpace s
      in if w = [] then []
         else (case dropWhile isSpace s of
                 [] \<Rightarrow> []
               | c # r \<Rightarrow> if isAlpha c then (w @ [c]) # spacedReps n r else []))"

definition spacedCapsPat :: "jstring pattern" where
  \<comment> \<open>\<^verbatim>\<open>/\b([A-Za-z])(?:\s+[A-Za-z]){1,4}\b/g\<close>: word boundary, a letter, one to four repetitions of white space and a letter, word
      boundary. The repetitions are greedy; where the closing boundary fails, the matcher
      gives repetitions back one at a time.\<close>
  "spacedCapsPat p s =
     (case s of
        [] \<Rightarrow> None
      | c # cs \<Rightarrow>
          if \<not> isAlpha c \<or> \<not> startsWord p then None
          else
            let reps = spacedReps 4 cs;
                cand = map (\<lambda>k. c # concat (take k reps)) (rev [1 ..< Suc (length reps)])
            in (case find (\<lambda>m. endsWord (drop (length m) s)) cand of
                  None \<Rightarrow> None
                | Some m \<Rightarrow> Some (m, length m)))"

definition collapseSpacedCaps :: "jstring \<Rightarrow> jstring" where
  "collapseSpacedCaps s =
     greplace spacedCapsPat (\<lambda>m. map upperChar (filter (\<lambda>c. \<not> isSpace c) m)) 0 None s"

text \<open>
  The patterns of the table of speech-recognition fixes are words between word
  boundaries, matched without regard to case, some with an optional separator between the
  letters. A pattern is the list of its letters in lower case, each with the separator
  that may follow it. A separator is always followed by a letter, which is neither white
  space nor a hyphen, so the greedy choice is the only one.
\<close>

datatype gap = Tight | Spaces | OptHyphen | OptSpace

definition gapLen :: "gap \<Rightarrow> jstring \<Rightarrow> nat" where
  "gapLen g s =
     (case g of
        Tight \<Rightarrow> 0
      | Spaces \<Rightarrow> length (takeWhile isSpace s)
      | OptHyphen \<Rightarrow> length (optChar (\<lambda>c. c = 45) s)
      | OptSpace \<Rightarrow> length (optChar (\<lambda>c. c = 32) s))"

fun matchLetters :: "(int \<times> gap) list \<Rightarrow> jstring \<Rightarrow> nat option" where
  "matchLetters [] s = Some 0"
| "matchLetters ((ch, g) # ps) [] = None"
| "matchLetters ((ch, g) # ps) (c # cs) =
     (if lowerChar c \<noteq> ch then None
      else let n = gapLen g cs
           in map_option (\<lambda>k. 1 + n + k) (matchLetters ps (drop n cs)))"

definition wordPat :: "(int \<times> gap) list \<Rightarrow> unit pattern" where
  "wordPat ps p s =
     (if \<not> startsWord p then None
      else (case matchLetters ps s of
              None \<Rightarrow> None
            | Some n \<Rightarrow> if endsWord (drop n s) then Some ((), n) else None))"

definition word :: "string \<Rightarrow> (int \<times> gap) list" where
  "word w = map (\<lambda>c. (of_char c, Tight)) w"

definition gapped :: "gap \<Rightarrow> string \<Rightarrow> (int \<times> gap) list" where
  \<comment> \<open>the letters of w with the separator g between them\<close>
  "gapped g w = map (\<lambda>c. (of_char c, g)) (butlast w) @ map (\<lambda>c. (of_char c, Tight)) [last w]"

definition ASR_FIX_MAP :: "((int \<times> gap) list \<times> jstring) list" where
  "ASR_FIX_MAP =
     [(gapped Spaces ''sol'', lit ''SOL''),
      (gapped OptHyphen ''sol'', lit ''SOL''),
      (word ''soul'', lit ''SOL''),
      (word ''sole'', lit ''SOL''),
      (word ''sold'', lit ''SOL''),
      (word ''eeth'', lit ''ETH''),
      (word ''ethh'', lit ''ETH''),
      (word ''btc'', lit ''BTC''),
      (word ''eth'', lit ''ETH''),
      (word ''xrp'', lit ''XRP''),
      (word ''avax'', lit ''AVAX''),
      (word ''link'', lit ''LINK''),
      (word ''usd'', lit ''USD''),
      (word ''dxy'', lit ''DXY''),
      (word ''vix'', lit ''VIX''),
      (gapped OptSpace ''qqq'', lit ''QQQ''),
      (gapped OptSpace ''spy'', lit ''SPY'')]"

definition fixASRTickers :: "jstring \<Rightarrow> jstring" where
  "fixASRTickers s = foldl (\<lambda>out (re, rep). greplace (wordPat re) (\<lambda>_. rep) 0 None out) s ASR_FIX_MAP"

definition capsWordPat :: "jstring pattern" where
  \<comment> \<open>\<^verbatim>\<open>/\b([A-Z]{2,5})\b/g\<close>: word boundary, two to five capital letters, word boundary; with fewer letters than
      the greedy choice the next code unit is a capital letter and the boundary fails\<close>
  "capsWordPat p s =
     (let m = takeWhile isUpper (take 5 s)
      in if startsWord p \<and> 2 \<le> length m \<and> endsWord (drop (length m) s)
         then Some (m, length m) else None)"

definition protectTickersWhitelist :: "jstring \<Rightarrow> jstring" where
  "protectTickersWhitelist s =
     greplace capsWordPat (\<lambda>m. if m \<in> set TICKER_WHITELIST then m else m) 0 None s"

definition normalizeForFinance :: "env \<Rightarrow> jstring \<Rightarrow> jstring" where
  "normalizeForFinance e s =
     protectTickersWhitelist (fixASRTickers (collapseSpacedCaps (normalizeTextBasic e s)))"

definition xxxPat :: "unit pattern" where
  \<comment> \<open>three letters x, in either case\<close>
  "xxxPat p s = (if map lowerChar (take 3 s) = [120, 120, 120] then Some ((), 3) else None)"

definition postFix :: "env \<Rightarrow> jstring \<Rightarrow> jstring" where
  "postFix e s = normalizeForFinance e (greplace xxxPat (\<lambda>_. [8212]) 0 None s)"

section \<open>The transcript cascade\<close>

subsection \<open>Official captions\<close>

definition splitLines :: "jstring \<Rightarrow> jstring list" where
  \<comment> \<open>\<open>.split('\n')\<close>\<close>
  "splitLines s = foldr (\<lambda>c acc. if c = 10 then [] # acc else (c # hd acc) # tl acc) s [[]]"

definition isStamp :: "jstring \<Rightarrow> bool" where
  \<comment> \<open>two digits, colon, two digits, colon, two digits, comma, three digits\<close>
  "isStamp t \<longleftrightarrow>
     length t = 12 \<and> list_all isDigit (take 2 t) \<and> t ! 2 = 58 \<and>
     list_all isDigit (take 2 (drop 3 t)) \<and> t ! 5 = 58 \<and>
     list_all isDigit (take 2 (drop 6 t)) \<and> t ! 8 = 44 \<and>
     list_all isDigit (drop 9 t)"

definition isTimeLine :: "jstring \<Rightarrow> bool" where
  \<comment> \<open>a line that is a stamp, white space, an arrow, white space and a stamp\<close>
  "isTimeLine line \<longleftrightarrow>
     isStamp (take 12 line) \<and>
     (let r = drop 12 line; r1 = dropWhile isSpace r; r2 = drop 3 r1
      in takeWhile isSpace r \<noteq> [] \<and> take 3 r1 = lit ''-->'' \<and>
         takeWhile isSpace r2 \<noteq> [] \<and> isStamp (dropWhile isSpace r2))"

definition srtToText :: "jstring \<Rightarrow> jstring" where
  "srtToText srt =
     trim (collapseWs (joinWith [32]
       (filter (\<lambda>line. \<not> (line \<noteq> [] \<and> list_all isDigit line) \<and> \<not> isTimeLine line)
          (splitLines (filter (\<lambda>c. c \<noteq> 13) srt)))))"

definition isEn :: "env \<Rightarrow> caption \<Rightarrow> bool" where
  "isEn e c \<longleftrightarrow> take 2 (toLowerCase e (language c)) = lit ''en''"

definition isASR :: "env \<Rightarrow> caption \<Rightarrow> bool" where
  "isASR e c \<longleftrightarrow> toUpperCase e (trackKind c) = lit ''ASR''"

definition firstOf :: "'a option list \<Rightarrow> 'a option" where
  \<comment> \<open>a chain of \<open>||\<close> over results of \<open>find\<close>\<close>
  "firstOf xs = (case List.map_filter id xs of [] \<Rightarrow> None | x # _ \<Rightarrow> Some x)"

definition fetchTranscriptViaYouTubeAPI :: "env \<Rightarrow> jstring \<Rightarrow> js_error + jstring" where
  \<comment> \<open>the whole body is inside one try block whose handler returns the empty string\<close>
  "fetchTranscriptViaYouTubeAPI e videoId =
     (if \<not> oauthConfigured e then Inr []
      else
        (case captionsList e videoId of
           Inl err \<Rightarrow> Inr []
         | Inr items \<Rightarrow>
             (case firstOf [find (\<lambda>c. isEn e c \<and> isASR e c) items, find (isEn e) items,
                            find (isASR e) items, (case items of [] \<Rightarrow> None | c # _ \<Rightarrow> Some c)] of
                None \<Rightarrow> Inr []
              | Some pick \<Rightarrow>
                  (case captionsDownload e (cap_id pick) of
                     Inl err \<Rightarrow> Inr []
                   | Inr srt \<Rightarrow> Inr (take 8000 (srtToText srt))))))"

subsection \<open>The transcript library\<close>

definition EN_LANGS :: "jstring list" where
  "EN_LANGS = map lit
     [''en'', ''en-US'', ''en-GB'', ''en-UK'', ''en-CA'', ''en-AU'', ''en-NZ'', ''en-IN'', ''en-IE'',
      ''en-SG'', ''en-PH'', ''en-ZA'', ''a.en'', ''auto'', ''auto-en'']"

fun libLoop :: "env \<Rightarrow> jstring \<Rightarrow> jstring list \<Rightarrow> jstring" where
  \<comment> \<open>the loop over the languages: each turn has its own try block\<close>
  "libLoop e videoId [] = []"
| "libLoop e videoId (lang # rest) =
     (case libTranscript e videoId lang of
        Inl err \<Rightarrow> libLoop e videoId rest
      | Inr parts \<Rightarrow>
          if parts \<noteq> [] then collapseWs (joinWith [32] parts) else libLoop e videoId rest)"

definition fetchTranscriptViaLib :: "env \<Rightarrow> jstring \<Rightarrow> js_error + jstring" where
  "fetchTranscriptViaLib e videoId = Inr (libLoop e videoId EN_LANGS)"

subsection \<open>The watch page\<close>

fun isPrefixCI :: "jstring \<Rightarrow> jstring \<Rightarrow> bool" where
  \<comment> \<open>the lower-case ASCII text n starts s, without regard to the case of s\<close>
  "isPrefixCI [] s = True"
| "isPrefixCI (n # ns) [] = False"
| "isPrefixCI (n # ns) (c # cs) = (lowerChar c = n \<and> isPrefixCI ns cs)"

fun containsCI :: "jstring \<Rightarrow> jstring \<Rightarrow> bool" where
  "containsCI n [] = (n = [])"
| "containsCI n (c # cs) = (isPrefixCI n (c # cs) \<or> containsCI n cs)"

fun contains :: "jstring \<Rightarrow> jstring \<Rightarrow> bool" where
  \<comment> \<open>\<open>String.prototype.includes\<close>\<close>
  "contains n [] = (n = [])"
| "contains n (c # cs) = (take (length n) (c # cs) = n \<or> contains n cs)"

definition consentPage :: "jstring \<Rightarrow> bool" where
  "consentPage html \<longleftrightarrow>
     containsCI (lit ''www.youtube.com/consent'') html \<or> containsCI (lit ''one more step'') html \<or>
     containsCI (lit ''verify you are human'') html \<or> containsCI (lit ''acknowledge'') html"

definition getTracksFrom :: "env \<Rightarrow> jstring \<Rightarrow> js_error + caption_track list option" where
  \<comment> \<open>no try block around the request or the reading of the body\<close>
  "getTracksFrom e u =
     (case httpFetch e u of
        Inl err \<Rightarrow> Inl err
      | Inr res \<Rightarrow>
          if \<not> res_ok res then Inr None
          else
            (case res_text res of
               Inl err \<Rightarrow> Inl err
             | Inr html \<Rightarrow>
                 if consentPage html then Inr None
                 else Inr (if pageTracks e html = [] then None else Some (pageTracks e html))))"

definition isEnglishCode :: "jstring \<Rightarrow> bool" where
  \<comment> \<open>\<^verbatim>\<open>/^en([\-\_][A-Za-z]+)?$/i\<close>: en, alone or followed by a hyphen or an underscore and letters, in either case\<close>
  "isEnglishCode c \<longleftrightarrow>
     map lowerChar (take 2 c) = lit ''en'' \<and>
     (drop 2 c = [] \<or>
      ((hd (drop 2 c) = 45 \<or> hd (drop 2 c) = 95) \<and> drop 3 c \<noteq> [] \<and> list_all isAlpha (drop 3 c)))"

definition isAutoEnglish :: "jstring \<Rightarrow> bool" where
  "isAutoEnglish c \<longleftrightarrow> map lowerChar c = lit ''a.en'' \<or> containsCI (lit ''auto'') c"

definition isEnglishName :: "jstring \<Rightarrow> bool" where
  "isEnglishName s \<longleftrightarrow> containsCI (lit ''english'') s"

definition pickTrack :: "env \<Rightarrow> caption_track list \<Rightarrow> caption_track option" where
  "pickTrack e arr =
     firstOf
       [find (\<lambda>t. isEnglishCode (languageCode t)) arr,
        find (\<lambda>t. isEnglishName (if simpleText t \<noteq> [] then simpleText t else languageName t)) arr,
        find (\<lambda>t. isAutoEnglish (languageCode t) \<or> toLowerCase e (kind t) = lit ''asr'') arr,
        find isTranslatable arr,
        (case arr of [] \<Rightarrow> None | t # _ \<Rightarrow> Some t)]"

definition ampPat :: "unit pattern" where
  \<comment> \<open>the six characters backslash, u, 0, 0, 2, 6\<close>
  "ampPat p s = (if take 6 s = [92, 117, 48, 48, 50, 54] then Some ((), 6) else None)"

fun withTtml :: "jstring \<Rightarrow> jstring" where
  \<comment> \<open>\<open>.replace(/fmt=[^&]+/, 'fmt=ttml')\<close>: the first place where \<open>fmt=\<close> is followed by
      a code unit other than the ampersand\<close>
  "withTtml [] = []"
| "withTtml (c # cs) =
     (if take 4 (c # cs) = lit ''fmt='' \<and> takeWhile (\<lambda>x. x \<noteq> 38) (drop 4 (c # cs)) \<noteq> []
      then lit ''fmt=ttml'' @ dropWhile (\<lambda>x. x \<noteq> 38) (drop 4 (c # cs))
      else c # withTtml cs)"

definition tagPat :: "unit pattern" where
  \<comment> \<open>\<^verbatim>\<open>/<[^>]+>/g\<close>: an opening angle bracket, one or more code units that are no closing bracket, a
      closing bracket\<close>
  "tagPat p s =
     (case s of
        [] \<Rightarrow> None
      | c # r \<Rightarrow>
          let m = takeWhile (\<lambda>x. x \<noteq> 62) r
          in if c = 60 \<and> m \<noteq> [] \<and> drop (length m) r \<noteq> [] then Some ((), length m + 2) else None)"

definition stripTags :: "jstring \<Rightarrow> jstring" where
  "stripTags xml = trim (collapseWs (greplace tagPat (\<lambda>_. [32]) 0 None xml))"

definition readJson3 :: "env \<Rightarrow> jstring \<Rightarrow> jstring" where
  \<comment> \<open>the text of a body in the JSON format, empty when the body does not start with a
      brace or reading it throws\<close>
  "readJson3 e body =
     (if take 1 (trim body) = [123] then (case json3Text e body of None \<Rightarrow> [] | Some t \<Rightarrow> t)
      else [])"

definition timedtextUrl :: "jstring \<Rightarrow> string \<Rightarrow> jstring" where
  "timedtextUrl enc fmt =
     lit ''https://www.youtube.com/api/timedtext?lang=en&v='' @ enc @ lit ''&fmt='' @ lit fmt"

definition timedtextFallback :: "env \<Rightarrow> jstring \<Rightarrow> js_error + jstring" where
  \<comment> \<open>the final loop over the two formats\<close>
  "timedtextFallback e enc =
     (case httpFetch e (timedtextUrl enc ''json3'') of
        Inl err \<Rightarrow> Inl err
      | Inr r1 \<Rightarrow>
          (case (if res_ok r1 then res_text r1 else Inr []) of
             Inl err \<Rightarrow> Inl err
           | Inr body1 \<Rightarrow>
               if res_ok r1 \<and> readJson3 e body1 \<noteq> [] then Inr (readJson3 e body1)
               else
                 (case httpFetch e (timedtextUrl enc ''ttml'') of
                    Inl err \<Rightarrow> Inl err
                  | Inr r2 \<Rightarrow>
                      if \<not> res_ok r2 then Inr []
                      else (case res_text r2 of
                              Inl err \<Rightarrow> Inl err
                            | Inr body2 \<Rightarrow> Inr (stripTags body2)))))"

definition trackText :: "env \<Rightarrow> jstring \<Rightarrow> jstring \<Rightarrow> js_error + jstring" where
  \<comment> \<open>the payload of the picked track: the JSON format first, then the XML format; the
      empty string when neither gives a text\<close>
  "trackText e enc base =
     (let jsonUrl = (if contains (lit ''fmt='') base then base else base @ lit ''&fmt=json3'');
          xmlUrl = (if contains (lit ''fmt='') base then withTtml base else base @ lit ''&fmt=ttml'')
      in case httpFetch e jsonUrl of
           Inl err \<Rightarrow> Inl err
         | Inr r1 \<Rightarrow>
             (case (if res_ok r1 then res_text r1 else Inr []) of
                Inl err \<Rightarrow> Inl err
              | Inr body1 \<Rightarrow>
                  if res_ok r1 \<and> readJson3 e body1 \<noteq> [] then Inr (readJson3 e body1)
                  else
                    (case httpFetch e xmlUrl of
                       Inl err \<Rightarrow> Inl err
                     | Inr r2 \<Rightarrow>
                         (case (if res_ok r2 then res_text r2 else Inr []) of
                            Inl err \<Rightarrow> Inl err
                          | Inr xml \<Rightarrow>
                              if res_ok r2 \<and> stripTags xml \<noteq> [] then Inr (stripTags xml)
                              else Inr []))))"

definition fetchTranscriptViaWatchPage :: "env \<Rightarrow> jstring \<Rightarrow> js_error + jstring" where
  "fetchTranscriptViaWatchPage e videoId =
     (case encodeURIComponent e videoId of
        Inl err \<Rightarrow> Inl err
      | Inr enc \<Rightarrow>
          let embedUrl = lit ''https://www.youtube.com/embed/'' @ videoId @ lit ''?hl=en'';
              watchUrl = lit ''https://www.youtube.com/watch?v='' @ enc
                         @ lit ''&hl=en&has_verified=1&bpctr=9999999999''
          in (case getTracksFrom e embedUrl of
                Inl err \<Rightarrow> Inl err
              | Inr t1 \<Rightarrow>
                  (case (if t1 = None then getTracksFrom e watchUrl else Inr t1) of
                     Inl err \<Rightarrow> Inl err
                   | Inr None \<Rightarrow> timedtextFallback e enc
                   | Inr (Some tracks) \<Rightarrow>
                       (case pickTrack e tracks of
                          None \<Rightarrow> Inr []
                        | Some t \<Rightarrow>
                            if baseUrl t = [] then Inr []
                            else
                              (case trackText e enc (greplace ampPat (\<lambda>_. [38]) 0 None (baseUrl t)) of
                                 Inl err \<Rightarrow> Inl err
                               | Inr text \<Rightarrow>
                                   if text \<noteq> [] then Inr text else timedtextFallback e enc)))))"

subsection \<open>Offline speech to text\<close>

definition fetchTranscriptViaWhisper :: "env \<Rightarrow> jstring \<Rightarrow> js_error + jstring" where
  \<comment> \<open>the working directory is made and the address of the video is built, with
      \<open>encodeURIComponent\<close>, before the try block; the block's handler returns the empty
      string\<close>
  "fetchTranscriptViaWhisper e videoId =
     (case makeWorkDir e videoId of
        Inl err \<Rightarrow> Inl err
      | Inr _ \<Rightarrow>
          (case encodeURIComponent e videoId of
             Inl err \<Rightarrow> Inl err
           | Inr enc \<Rightarrow>
               (case whisperText e videoId of
                  Inl err \<Rightarrow> Inr []
                | Inr txt \<Rightarrow> Inr (take 8000 (trim (collapseWs txt))))))"

subsection \<open>fetchTranscriptText\<close>

datatype stage = OfficialCaptions | TranscriptLibrary | WatchPage | OfflineSTT

text \<open>
  The result comes with the list of the stages that were called, in the order of the
  calls. An exception of a stage leaves \<open>fetchTranscriptText\<close>, which has no try block.
\<close>

definition fetchTranscriptText :: "env \<Rightarrow> jstring \<Rightarrow> (js_error + jstring) \<times> stage list" where
  "fetchTranscriptText e videoId =
     (case fetchTranscriptViaYouTubeAPI e videoId of
        Inl err \<Rightarrow> (Inl err, [OfficialCaptions])
      | Inr fromApi \<Rightarrow>
          if fromApi \<noteq> [] then (Inr (take 8000 (normalizeForFinance e fromApi)), [OfficialCaptions])
          else
            (case fetchTranscriptViaLib e videoId of
               Inl err \<Rightarrow> (Inl err, [OfficialCaptions, TranscriptLibrary])
             | Inr fromLib \<Rightarrow>
                 if fromLib \<noteq> []
                 then (Inr (take 8000 (normalizeForFinance e fromLib)),
                       [OfficialCaptions, TranscriptLibrary])
                 else
                   (case fetchTranscriptViaWatchPage e videoId of
                      Inl err \<Rightarrow> (Inl err, [OfficialCaptions, TranscriptLibrary, WatchPage])
                    | Inr fromWatch \<Rightarrow>
                        if fromWatch \<noteq> []
                        then (Inr (take 8000 (normalizeForFinance e fromWatch)),
                              [OfficialCaptions, TranscriptLibrary, WatchPage])
                        else
                          (case fetchTranscriptViaWhisper e videoId of
                             Inl err \<Rightarrow>
                               (Inl err, [OfficialCaptions, TranscriptLibrary, WatchPage, OfflineSTT])
                           | Inr fromWhisper \<Rightarrow>
                               if fromWhisper \<noteq> []
                               then (Inr (take 8000 (normalizeForFinance e fromWhisper)),
                                     [OfficialCaptions, TranscriptLibrary, WatchPage, OfflineSTT])
                               else (Inr [],
                                     [OfficialCaptions, TranscriptLibrary, WatchPage, OfflineSTT])))))"

section \<open>Summarization\<close>

record video =
  videoId :: jstring
  title :: jstring
  description :: jstring
  publishedAt :: jstring
  url :: jstring

datatype long_result = Skipped | Failed | Full long_form

record summary =
  video :: video
  bullets :: "jstring list"
  long :: long_result

definition unavailableBullet :: jstring where
  "unavailableBullet = lit ''Transcript unavailable '' @ [8212] @ lit '' summary skipped.''"

definition errorBullet :: jstring where
  "errorBullet = lit ''Summary pending '' @ [8212] @ lit '' processing error.''"

definition skippedSummary :: "video \<Rightarrow> summary" where
  "skippedSummary v = \<lparr>video = v, bullets = [unavailableBullet], long = Skipped\<rparr>"

definition failedSummary :: "video \<Rightarrow> summary" where
  "failedSummary v = \<lparr>video = v, bullets = [errorBullet], long = Failed\<rparr>"

definition whitelistAssets :: "env \<Rightarrow> long_form \<Rightarrow> long_form" where
  \<comment> \<open>the map over the key levels that keeps an asset only when it is whitelisted\<close>
  "whitelistAssets e l =
     l\<lparr>key_levels :=
         map (\<lambda>kl. let a = toUpperCase e (postFix e (asset kl))
                   in kl\<lparr>asset := (if a \<in> set TICKER_WHITELIST then a else [])\<rparr>)
           (key_levels l)\<rparr>"

subsection \<open>The extractive summarizer\<close>

fun gsplit :: "unit pattern \<Rightarrow> nat \<Rightarrow> int option \<Rightarrow> jstring \<Rightarrow> jstring \<Rightarrow> jstring list" where
  \<comment> \<open>\<open>String.prototype.split\<close> with a pattern that matches no empty string; the fourth
      argument is the current piece, reversed\<close>
  "gsplit re k p cur [] = [rev cur]"
| "gsplit re (Suc k) p cur (c # cs) = gsplit re k (Some c) cur cs"
| "gsplit re 0 p cur (c # cs) =
     (case re p (c # cs) of
        None \<Rightarrow> gsplit re 0 (Some c) (c # cur) cs
      | Some (a, n) \<Rightarrow> rev cur # gsplit re (n - 1) (Some c) [] cs)"

definition sentenceBreakPat :: "unit pattern" where
  \<comment> \<open>\<^verbatim>\<open>/(?<=[\.\!\?])\s+(?=[A-Z0-9"'])|(?:\n|\r)+/g\<close>: white space behind a full stop, an exclamation mark or a question mark and in front
      of a capital letter, a digit or a quotation mark; or a run of line feeds and carriage
      returns\<close>
  "sentenceBreakPat p s =
     (let w = takeWhile isSpace s; r = dropWhile isSpace s;
          nl = takeWhile (\<lambda>c. c = 10 \<or> c = 13) s
      in if (p = Some 46 \<or> p = Some 33 \<or> p = Some 63) \<and> w \<noteq> [] \<and> r \<noteq> [] \<and>
            (isUpper (hd r) \<or> isDigit (hd r) \<or> hd r = 34 \<or> hd r = 39)
         then Some ((), length w)
         else if nl \<noteq> [] then Some ((), length nl)
         else None)"

definition tokenizeSentences :: "jstring \<Rightarrow> jstring list" where
  "tokenizeSentences text =
     filter (\<lambda>s. s \<noteq> []) (map trim (gsplit sentenceBreakPat 0 None [] (collapseWs text)))"

definition topKIndices :: "rat list \<Rightarrow> nat \<Rightarrow> nat list" where
  \<comment> \<open>the sort by descending score is stable, as the host's is\<close>
  "topKIndices scores k =
     sort (take k (map snd (sort_key (\<lambda>(sc, i). - sc) (zip scores [0 ..< length scores]))))"

definition elemAt :: "jstring list \<Rightarrow> nat \<Rightarrow> jstring" where
  \<comment> \<open>\<open>sentences[i]\<close> where it is made into a string: a missing element reads as empty\<close>
  "elemAt xs i = (if i < length xs then xs ! i else [])"

definition priceShapePat :: "jstring pattern" where
  \<comment> \<open>\<^verbatim>\<open>/\b\d{2,5}(?:\.\d+)?\b/g\<close>: word boundary, two to five digits, an optional fraction, word boundary. A run of
      more than five digits has no match: with fewer digits than the run the next code
      unit is a digit. Where the boundary behind the fraction fails, the match ends in
      front of the dot.\<close>
  "priceShapePat p s =
     (let d = takeWhile isDigit s; r = dropWhile isDigit s; f = optFraction r
      in if \<not> startsWord p \<or> length d < 2 \<or> 5 < length d then None
         else if f \<noteq> [] \<and> endsWord (drop (length f) r) then Some (d @ f, length (d @ f))
         else if endsWord r then Some (d, length d)
         else None)"

definition detailPat :: "unit pattern" where
  \<comment> \<open>one of eight tickers as a word of its own, or a digit\<close>
  "detailPat p s =
     (if startsWord p \<and>
         take 3 s \<in> set (map lit [''BTC'', ''ETH'', ''SOL'', ''SPY'', ''QQQ'', ''USD'', ''DXY'', ''VIX'']) \<and>
         endsWord (drop 3 s)
      then Some ((), 3)
      else if s \<noteq> [] \<and> isDigit (hd s) then Some ((), 1)
      else None)"

definition summarizeFree :: "env \<Rightarrow> video \<Rightarrow> jstring \<Rightarrow> summary \<times> effect list" where
  "summarizeFree e v transcript =
     (let sentences = take 400 (tokenizeSentences transcript)
      in if sentences = [] then (skippedSummary v, [])
         else
           let scores = scoreSentences e sentences;
               top3Idx = topKIndices scores 3;
               top3 = map (elemAt sentences) top3Idx;
               contextIdx = (case topKIndices scores (min 1 (length sentences)) of
                               [] \<Rightarrow> 0 | i # _ \<Rightarrow> i);
               context = elemAt sentences contextIdx;
               levelCandidates = rev (remdups (rev (take 6 (gmatch priceShapePat 0 None transcript))));
               kls = map (\<lambda>p. \<lparr>asset = [], level = p, direction = [], knotes = []\<rparr>) levelCandidates;
               top8 = topKIndices scores 8;
               remainder = filter (\<lambda>i. i \<notin> set top3Idx) top8;
               tks = map (elemAt sentences) (take 4 remainder);
               details = take 6 (filter (\<lambda>s. gmatch detailPat 0 None s \<noteq> [])
                                   (filter (\<lambda>s. s \<notin> set (top3 @ tks)) sentences));
               bs = map (\<lambda>s. let t = postFix e s
                              in if 160 < length t then take 157 t @ [8230] else t) top3;
               l = \<lparr>lcontext = postFix e context, key_levels = kls, setups = [],
                    takeaways = map (postFix e) tks, catalysts = [],
                    notable_details = map (postFix e) details, lnote = None\<rparr>;
               (bs', l') = ground bs l transcript;
               (l'', effs) = filterImplausibleLevels e l'
           in (\<lparr>video = v, bullets = bs', long = Full (whitelistAssets e l'')\<rparr>, effs))"

subsection \<open>The summarizer that asks the text-generation service\<close>

definition summarizeWithOpenAI :: "env \<Rightarrow> video \<Rightarrow> jstring \<Rightarrow> summary \<times> effect list" where
  \<comment> \<open>an exception of the request is caught by the try block around it\<close>
  "summarizeWithOpenAI e v transcript =
     (if transcript = [] \<or> length (trim transcript) < 200 then (skippedSummary v, [])
      else
        (case aiReply e (take 6000 transcript) of
           Inl err \<Rightarrow> (failedSummary v, [AiRequest (take 6000 transcript)])
         | Inr data \<Rightarrow>
             let l0 = (rlong data)\<lparr>notable_details := take 6 (notable_details (rlong data))\<rparr>;
                 cleanBullets = map (postFix e) (take 3 (tldr data));
                 l1 = whitelistAssets e
                        (l0\<lparr>lcontext := (if lcontext l0 \<noteq> [] then postFix e (lcontext l0) else []),
                            takeaways := map (postFix e) (takeaways l0),
                            catalysts := map (postFix e) (catalysts l0),
                            notable_details := map (postFix e) (notable_details l0)\<rparr>)
             in if hasUnseen cleanBullets l1 transcript
                then (\<lparr>video = v, bullets = fst (scrubbed cleanBullets l1),
                       long = Full (snd (scrubbed cleanBullets l1))\<rparr>,
                      [AiRequest (take 6000 transcript)])
                else
                  let (l2, effs) = filterImplausibleLevels e l1
                  in (\<lparr>video = v, bullets = cleanBullets, long = Full l2\<rparr>,
                      AiRequest (take 6000 transcript) # effs)))"

subsection \<open>summarizeItem\<close>

definition summarizeItem :: "env \<Rightarrow> video \<Rightarrow> (js_error + summary) \<times> stage list \<times> effect list" where
  "summarizeItem e v =
     (case fetchTranscriptText e (videoId v) of
        (Inl err, stages) \<Rightarrow> (Inl err, stages, [])
      | (Inr transcript, stages) \<Rightarrow>
          let (sm, effs) = (if FREE_MODE e \<or> \<not> aiClient e then summarizeFree e v transcript
                            else summarizeWithOpenAI e v transcript)
          in (Inr sm, stages, effs))"

section \<open>An environment for the examples\<close>

fun nfkcSample :: "jstring \<Rightarrow> jstring" where
  \<comment> \<open>Unicode normalization form KC on the strings of the examples: the letter e and a
      combining acute accent (U+0301) right behind it compose to U+00E9; the other code
      units of those strings (ASCII, the zero-width space U+200B in front of an accent, the
      em dash) stay as they are\<close>
  "nfkcSample (c # d # r) =
     (if c = 101 \<and> d = 769 then 233 # nfkcSample r else c # nfkcSample (d # r))"
| "nfkcSample s = s"

definition exampleEnv :: env where
  \<comment> \<open>nothing configured and every service failing, the case mappings those of ASCII\<close>
  "exampleEnv =
     \<lparr>nfkc = nfkcSample, toUpperCase = map upperChar, toLowerCase = map lowerChar,
      ALLOW_PRICE_LOOKUPS = False, priceApi = (\<lambda>ids. Inl (Thrown (lit ''network''))),
      FREE_MODE = False, aiClient = True,
      aiReply = (\<lambda>t. Inl (Thrown (lit ''network''))),
      scoreSentences = map (\<lambda>s. of_nat (length s)),
      oauthConfigured = False,
      captionsList = (\<lambda>v. Inl (Thrown (lit ''network''))),
      captionsDownload = (\<lambda>c. Inl (Thrown (lit ''network''))),
      libTranscript = (\<lambda>v lang. Inl (Thrown (lit ''network''))),
      encodeURIComponent = Inr,
      httpFetch = (\<lambda>u. Inl (Thrown (lit ''fetch failed''))),
      pageTracks = (\<lambda>html. []), json3Text = (\<lambda>body. None),
      makeWorkDir = (\<lambda>v. Inr ()), whisperText = (\<lambda>v. Inl (Thrown (lit ''no binary'')))\<rparr>"

section \<open>The matching rule as the specification words it\<close>

definition spec_tokenMatches :: "numtoken \<Rightarrow> numtoken \<Rightarrow> bool" where
  \<comment> \<open>percent flags agree, and the stripped texts are equal or the values are within one
      percent of the larger of the two magnitudes\<close>
  "spec_tokenMatches a b \<longleftrightarrow>
     isPercent a = isPercent b \<and>
     (normRaw (raw a) = normRaw (raw b) \<or>
      fle (fdiv (fabs (fsub (val a) (val b))) (fmax (fabs (val a)) (fabs (val b))))
          (rnd (1 / 100)))"

section \<open>Rounding to a double\<close>

text \<open>
  \<open>floorLog2\<close> is the binary exponent of a positive number, \<open>roundHalfEven\<close> is at most
  a half away from its argument, and a finite \<open>rnd x\<close> is at most half a unit of the last
  place away from x.
\<close>

lemma pow2_pos: "0 < pow2 k"
  by (simp add: pow2_def)

lemma pow2_eq_power_int: "pow2 k = 2 powi k"
  by (simp add: pow2_def power_int_def field_simps)

lemma pow2_diff: "pow2 (i - j) = pow2 i / pow2 j"
  by (simp add: pow2_eq_power_int power_int_diff)

lemma pow2_Suc: "pow2 (k + 1) = 2 * pow2 k"
  by (simp add: pow2_eq_power_int power_int_add)

lemma bitlen_pow2_bounds:
  assumes "0 < (x::int)"
  shows "pow2 (bitlen x - 1) \<le> of_int x \<and> of_int x < pow2 (bitlen x)"
proof -
  from bitlen_bounds [OF assms]
  have a: "2 ^ nat (bitlen x - 1) \<le> x" and b: "x < 2 ^ nat (bitlen x)" by auto
  have p: "0 < bitlen x"
  proof (rule ccontr)
    assume "\<not> 0 < bitlen x"
    then have "nat (bitlen x) = 0" by simp
    with b assms show False by simp
  qed
  have "pow2 (bitlen x - 1) = of_int (2 ^ nat (bitlen x - 1))"
    using p by (simp add: pow2_def)
  moreover have "pow2 (bitlen x) = of_int (2 ^ nat (bitlen x))"
    using p by (simp add: pow2_def)
  ultimately show ?thesis
    using a b by (metis of_int_le_iff of_int_less_iff)
qed

lemma floorLog2_bounds:
  assumes "0 < a"
  shows "pow2 (floorLog2 a) \<le> a \<and> a < pow2 (floorLog2 a + 1)"
proof -
  obtain p q where pq: "quotient_of a = (p, q)" by (cases "quotient_of a")
  then have q: "0 < q" and a: "a = of_int p / of_int q"
    by (auto simp: quotient_of_denom_pos quotient_of_div)
  with assms have p: "0 < p"
    by (simp add: zero_less_divide_iff)
  let ?k = "bitlen p - bitlen q"
  from bitlen_pow2_bounds [OF p] bitlen_pow2_bounds [OF q]
  have bp: "pow2 (bitlen p - 1) \<le> of_int p" "of_int p < pow2 (bitlen p)"
    and bq: "pow2 (bitlen q - 1) \<le> of_int q" "of_int q < pow2 (bitlen q)"
    by auto
  have qpos: "(0::rat) < of_int q" using q by simp
  have lo: "pow2 (?k - 1) < a"
  proof -
    have "pow2 (?k - 1) * of_int q < pow2 (?k - 1) * pow2 (bitlen q)"
      using bq(2) pow2_pos by simp
    also have "\<dots> = pow2 (bitlen p - 1)"
      by (simp add: pow2_eq_power_int flip: power_int_add)
    also have "\<dots> \<le> of_int p" by (rule bp(1))
    finally show ?thesis using qpos by (simp add: a pos_less_divide_eq)
  qed
  have hi: "a < pow2 (?k + 1)"
  proof -
    have "of_int p < pow2 (bitlen p)" by (rule bp(2))
    also have "\<dots> = pow2 (?k + 1) * pow2 (bitlen q - 1)"
      by (simp add: pow2_eq_power_int flip: power_int_add)
    also have "\<dots> \<le> pow2 (?k + 1) * of_int q"
      using bq(1) pow2_pos by simp
    finally show ?thesis using qpos by (simp add: a pos_divide_less_eq)
  qed
  show ?thesis
  proof (cases "pow2 ?k \<le> a")
    case True
    then show ?thesis using hi by (simp add: floorLog2_def pq Let_def)
  next
    case False
    then have "a < pow2 ?k" by simp
    moreover have "floorLog2 a = ?k - 1" using False by (simp add: floorLog2_def pq Let_def)
    ultimately show ?thesis using lo by simp
  qed
qed

lemma roundHalfEven_nearest: "\<bar>of_int (roundHalfEven m) - m\<bar> \<le> 1 / 2"
proof -
  define d where "d = m - of_int \<lfloor>m\<rfloor>"
  have d: "0 \<le> d" "d < 1"
    unfolding d_def by linarith+
  have m: "m = of_int \<lfloor>m\<rfloor> + d"
    by (simp add: d_def)
  consider "d < 1 / 2" | "1 / 2 < d" | "d = 1 / 2" by linarith
  then show ?thesis
  proof cases
    case 1
    then have "roundHalfEven m = \<lfloor>m\<rfloor>"
      by (simp add: roundHalfEven_def Let_def d_def)
    with 1 d show ?thesis by (simp add: d_def)
  next
    case 2
    then have "roundHalfEven m = \<lfloor>m\<rfloor> + 1"
      by (simp add: roundHalfEven_def Let_def d_def)
    with 2 d show ?thesis by (simp add: d_def)
  next
    case 3
    then have "roundHalfEven m = \<lfloor>m\<rfloor> \<or> roundHalfEven m = \<lfloor>m\<rfloor> + 1"
      by (simp add: roundHalfEven_def Let_def d_def)
    with 3 show ?thesis by (auto simp: d_def)
  qed
qed

lemma scaled_round:
  fixes p a :: rat
  assumes "0 < p"
  shows "\<bar>of_int (roundHalfEven (a / p)) * p - a\<bar> \<le> p / 2"
proof -
  define r :: rat where "r = of_int (roundHalfEven (a / p))"
  have "\<bar>r - a / p\<bar> \<le> 1 / 2"
    unfolding r_def by (rule roundHalfEven_nearest)
  then have "\<bar>r - a / p\<bar> * p \<le> 1 / 2 * p"
    using assms by (simp only: mult_le_cancel_right_pos)
  moreover have "\<bar>r - a / p\<bar> * p = \<bar>(r - a / p) * p\<bar>"
    using assms by (simp add: abs_mult)
  moreover have "(r - a / p) * p = r * p - a"
    using assms by (simp add: field_simps)
  ultimately show ?thesis
    unfolding r_def by simp
qed

lemma rnd_nearest:
  assumes "rnd x = Fin y"
  shows "\<bar>y - x\<bar> \<le> pow2 (max (floorLog2 \<bar>x\<bar> - 52) (- 1074)) / 2"
proof -
  define p where "p = pow2 (max (floorLog2 \<bar>x\<bar> - 52) (- 1074))"
  define r :: rat where "r = of_int (roundHalfEven (\<bar>x\<bar> / p))"
  have p: "0 < p" unfolding p_def by (rule pow2_pos)
  have d: "\<bar>r * p - \<bar>x\<bar>\<bar> \<le> p / 2"
    unfolding r_def using p by (rule scaled_round)
  show ?thesis
  proof (cases "x = 0")
    case True
    with assms have "y = 0" by (simp add: rnd_def)
    with True p show ?thesis unfolding p_def by simp
  next
    case False
    from assms False have y: "y = (if 0 < x then 1 else - 1) * r * p"
      unfolding r_def p_def by (simp add: rnd_def Let_def split: if_splits)
    show ?thesis
    proof (cases "0 < x")
      case True
      with d y show ?thesis unfolding p_def [symmetric] by simp
    next
      case neg: False
      with False have "x < 0" by simp
      with y have "\<bar>y - x\<bar> = \<bar>r * p - \<bar>x\<bar>\<bar>"
        by (simp add: abs_minus_commute)
      with d show ?thesis unfolding p_def [symmetric] by simp
    qed
  qed
qed

section \<open>Properties of the scrub pattern\<close>

lemma digit_not_dollar_space: "isDigit c \<Longrightarrow> c \<noteq> 36 \<and> \<not> isSpace c"
  by (auto simp: isDigit_def isSpace_def)

lemma numRe_digit_head: "isDigit c \<Longrightarrow> numRe (c # cs) \<noteq> None"
  using digit_not_dollar_space[of c]
  by (simp add: numRe_def optChar_def Let_def)

lemma numRe_needs_digit:
  assumes "numRe s = Some m"
  shows "\<exists>c \<in> set s. isDigit c"
proof -
  let ?a = "optChar (\<lambda>c. c = 36) s"
  let ?s2 = "dropWhile isSpace (drop (length ?a) s)"
  from assms obtain d s3 where s2: "?s2 = d # s3" and d: "isDigit d"
    by (auto simp: numRe_def Let_def split: list.splits if_splits)
  have "d \<in> set ?s2" using s2 by simp
  then have "d \<in> set s"
    by (meson in_set_dropD set_dropWhileD)
  with d show ?thesis by blast
qed

lemma greplace_num_no_digit:
  "c \<in> set (greplace numPat (\<lambda>_. [120]) k p s) \<Longrightarrow> \<not> isDigit c"
proof (induction s arbitrary: k p)
  case Nil
  then show ?case by simp
next
  case (Cons a s)
  show ?case
  proof (cases k)
    case (Suc k')
    with Cons show ?thesis by simp
  next
    case 0
    show ?thesis
    proof (cases "numRe (a # s)")
      case None
      then have "\<not> isDigit a" using numRe_digit_head by blast
      with Cons 0 None show ?thesis by (auto simp: numPat_def)
    next
      case (Some m)
      with Cons 0 show ?thesis by (auto simp: numPat_def isDigit_def)
    qed
  qed
qed

lemma scrub_no_digit: "c \<in> set (scrub s) \<Longrightarrow> \<not> isDigit c"
  unfolding scrub_def by (rule greplace_num_no_digit)

lemma gmatch_num_no_digit:
  "\<forall>c \<in> set s. \<not> isDigit c \<Longrightarrow> gmatch numPat k p s = []"
proof (induction s arbitrary: k p)
  case Nil
  then show ?case by simp
next
  case (Cons a s)
  have "numRe (a # s) = None"
    using numRe_needs_digit[of "a # s"] Cons.prems by (cases "numRe (a # s)") auto
  with Cons show ?case by (cases k) (auto simp: numPat_def)
qed

lemma numMatches_scrub: "numMatches (scrub s) = []"
  unfolding numMatches_def by (rule gmatch_num_no_digit) (simp add: scrub_no_digit)

lemma rewrittenFields_scrubbed:
  "s \<in> set (rewrittenFields (scrubbed bs l)) \<Longrightarrow> \<exists>s0. s = scrub s0"
  by (auto simp: rewrittenFields_def scrubbed_def)

section \<open>The grounding block: scrubbing and pass-through\<close>

text \<open>
  C1. If one numeric-looking substring of the serialized summary is not found in the
  transcript, the grounding block puts the marker x in place of every numeric-looking
  substring of the bullets, the context, the takeaways, the catalysts, the level and the
  notes of every key level and the notable details (each of these texts is the global
  replacement on the text it was, whether a substring was found in the transcript or
  not, and no numeric-looking substring is left in any of them), and it sets the note.
\<close>

theorem ground_scrubs_all_or_nothing:
  assumes "hasUnseen bs l transcript"
  shows "fst (ground bs l transcript) = map scrub bs \<and>
         lcontext (snd (ground bs l transcript)) = scrub (lcontext l) \<and>
         takeaways (snd (ground bs l transcript)) = map scrub (takeaways l) \<and>
         catalysts (snd (ground bs l transcript)) = map scrub (catalysts l) \<and>
         map level (key_levels (snd (ground bs l transcript)))
           = map (\<lambda>kl. scrub (level kl)) (key_levels l) \<and>
         map knotes (key_levels (snd (ground bs l transcript)))
           = map (\<lambda>kl. scrub (knotes kl)) (key_levels l) \<and>
         notable_details (snd (ground bs l transcript)) = map scrub (notable_details l) \<and>
         lnote (snd (ground bs l transcript)) = Some scrubNote \<and>
         (\<forall>s \<in> set (rewrittenFields (ground bs l transcript)). numMatches s = [])"
proof -
  have g: "ground bs l transcript = scrubbed bs l"
    using assms by (simp add: ground_def)
  have "\<forall>s \<in> set (rewrittenFields (scrubbed bs l)). numMatches s = []"
    using rewrittenFields_scrubbed numMatches_scrub by blast
  then show ?thesis
    unfolding g by (simp add: scrubbed_def o_def)
qed

theorem ground_scrubs_all_or_nothing_witness:
  "hasUnseen [lit ''BTC held 108000 and may reach 120000''] emptyLong
     (lit ''BTC tested 108000 support'') \<and>
   fst (ground [lit ''BTC held 108000 and may reach 120000''] emptyLong
     (lit ''BTC tested 108000 support'')) = [lit ''BTC heldxand may reachx''] \<and>
   lnote (snd (ground [lit ''BTC held 108000 and may reach 120000''] emptyLong
     (lit ''BTC tested 108000 support''))) = Some scrubNote"
proof -
  have h: "hasUnseen [lit ''BTC held 108000 and may reach 120000''] emptyLong
     (lit ''BTC tested 108000 support'')"
    by code_simp
  have s: "scrub (lit ''BTC held 108000 and may reach 120000'') = lit ''BTC heldxand may reachx''"
    by code_simp
  show ?thesis
    using h s ground_scrubs_all_or_nothing [OF h] by simp
qed

text \<open>
  C3. If every numeric-looking substring of the serialized summary is found in the
  transcript, the grounding block returns the bullets and the long form as they were,
  every field, and the note is what it was (none, when there was none).
\<close>

theorem ground_clean_pass_through:
  assumes "\<not> hasUnseen bs l transcript"
  shows "ground bs l transcript = (bs, l) \<and>
         lnote (snd (ground bs l transcript)) = lnote l"
  using assms by (simp add: ground_def)

theorem ground_clean_pass_through_witness:
  "\<not> hasUnseen [lit ''SOL broke 150''] emptyLong
       (lit ''SOL broke above 150 with volume confirmation'') \<and>
   ground [lit ''SOL broke 150''] emptyLong
       (lit ''SOL broke above 150 with volume confirmation'') = ([lit ''SOL broke 150''], emptyLong) \<and>
   lnote (snd (ground [lit ''SOL broke 150''] emptyLong
       (lit ''SOL broke above 150 with volume confirmation''))) = None"
proof -
  have h: "\<not> hasUnseen [lit ''SOL broke 150''] emptyLong
       (lit ''SOL broke above 150 with volume confirmation'')"
    by code_simp
  have n: "lnote emptyLong = None"
    by (simp add: emptyLong_def)
  show ?thesis
    using h n ground_clean_pass_through [OF h] by simp
qed

text \<open>
  C10. After the scrub branch, the texts it rewrites (bullets, context, takeaways,
  catalysts, the level and the notes of every key level, notable details) hold no digit
  from 0 to 9 at all: the replacement takes every occurrence of a digit with it.
\<close>

theorem scrub_branch_leaves_no_digit:
  assumes "hasUnseen bs l transcript"
  shows "\<forall>s \<in> set (rewrittenFields (ground bs l transcript)). \<forall>c \<in> set s. \<not> isDigit c"
proof -
  have "ground bs l transcript = scrubbed bs l"
    using assms by (simp add: ground_def)
  then show ?thesis
    using rewrittenFields_scrubbed scrub_no_digit by metis
qed

theorem scrub_branch_leaves_no_digit_witness:
  "hasUnseen [lit ''ETH near 4,200.50 then 5k'']
     (emptyLong\<lparr>key_levels := [\<lparr>asset = lit ''ETH'', level = lit ''$4,200.50'',
                                direction = lit ''support'', knotes = lit ''up 3% to 5k''\<rparr>]\<rparr>)
     (lit ''ETH is near 4,200.50 today'') \<and>
   list_all (\<lambda>s. list_all (\<lambda>c. \<not> isDigit c) s)
     (rewrittenFields (ground [lit ''ETH near 4,200.50 then 5k'']
       (emptyLong\<lparr>key_levels := [\<lparr>asset = lit ''ETH'', level = lit ''$4,200.50'',
                                  direction = lit ''support'', knotes = lit ''up 3% to 5k''\<rparr>]\<rparr>)
       (lit ''ETH is near 4,200.50 today'')))"
proof -
  have h: "hasUnseen [lit ''ETH near 4,200.50 then 5k'']
     (emptyLong\<lparr>key_levels := [\<lparr>asset = lit ''ETH'', level = lit ''$4,200.50'',
                                direction = lit ''support'', knotes = lit ''up 3% to 5k''\<rparr>]\<rparr>)
     (lit ''ETH is near 4,200.50 today'')"
    by code_simp
  show ?thesis
    using h scrub_branch_leaves_no_digit [OF h] by (simp add: list_all_iff)
qed


section \<open>Token matching\<close>

text \<open>
  The first alternative of the token pattern takes at most three digits and can always be
  followed by the rest of the pattern, so a run of four or more digits without commas is
  cut into several tokens and the second alternative is never used.
\<close>

lemma parse_splits_long_digit_runs:
  "map (\<lambda>t. (raw t, val t)) (parseNumericTokens (lit ''4200''))
     = [(lit ''420'', Fin 420), (lit ''0'', Fin 0)] \<and>
   \<not> appearsInTranscriptHuman (lit ''$4,200'') (lit ''4200'')"
  by code_simp

text \<open>
  Values are doubles: a long fraction is rounded when it is read, and the quotient is
  rounded before it is compared with the double nearest to a hundredth. So 100 is found in
  101.00000000000000001, which reads as 101, and 1.1 is not found in 1.089, the double for
  1.1 being a little more than eleven tenths.
\<close>

lemma double_rounding_examples:
  "toNumber (lit ''101.00000000000000001'') = Fin 101 \<and>
   toNumber (lit ''1.1'') = Fin (2476979795053773 / 2251799813685248) \<and>
   rnd (1 / 100) = Fin (5764607523034235 / 576460752303423488) \<and>
   appearsInTranscriptHuman (lit ''100'') (lit ''101.00000000000000001'') \<and>
   \<not> appearsInTranscriptHuman (lit ''1.1'') (lit ''1.089'')"
  by code_simp

text \<open>
  The rule the specification words (tolerance against the larger of the two magnitudes)
  is not the rule of the code (tolerance against the wanted token's own magnitude, at
  least 1): 199 against 201 is 2 apart, more than a hundredth of 199, less than a
  hundredth of 201.
\<close>

theorem tokenMatches_larger_magnitude_counterexample:
  "parseNumericTokens (lit ''199'')
     = [\<lparr>raw = lit ''199'', val = Fin 199, isPercent = False, isUSD = False\<rparr>] \<and>
   parseNumericTokens (lit ''201'')
     = [\<lparr>raw = lit ''201'', val = Fin 201, isPercent = False, isUSD = False\<rparr>] \<and>
   \<not> tokenMatches \<lparr>raw = lit ''199'', val = Fin 199, isPercent = False, isUSD = False\<rparr>
                   \<lparr>raw = lit ''201'', val = Fin 201, isPercent = False, isUSD = False\<rparr> \<and>
   spec_tokenMatches \<lparr>raw = lit ''199'', val = Fin 199, isPercent = False, isUSD = False\<rparr>
                     \<lparr>raw = lit ''201'', val = Fin 201, isPercent = False, isUSD = False\<rparr>"
  by code_simp

text \<open>
  C6, as the code has it. Two tokens match exactly when their percent flags agree and
  either their texts are equal once commas, white space and dollar signs are stripped and
  case is folded, or the distance of their values, divided by the wanted token's magnitude
  (by 1 when that is smaller), is at most a hundredth, distance, quotient and hundredth
  being those of double-precision arithmetic. \<open>$4,200\<close> is found in \<open>4,200\<close>; \<open>4200\<close> is
  not found in \<open>4300\<close>, nor \<open>50%\<close> in \<open>50\<close>.
\<close>

theorem tokenMatches_characterised:
  "(tokenMatches a b \<longleftrightarrow>
      isPercent a = isPercent b \<and>
      (normRaw (raw a) = normRaw (raw b) \<or>
       fle (fdiv (fabs (fsub (val a) (val b))) (fmax (Fin 1) (fabs (val a)))) (rnd (1 / 100)))) \<and>
   appearsInTranscriptHuman (lit ''$4,200'') (lit ''4,200'') \<and>
   \<not> appearsInTranscriptHuman (lit ''4200'') (lit ''4300'') \<and>
   \<not> appearsInTranscriptHuman (lit ''50%'') (lit ''50'')"
proof -
  have g: "tokenMatches a b \<longleftrightarrow>
      isPercent a = isPercent b \<and>
      (normRaw (raw a) = normRaw (raw b) \<or>
       fle (fdiv (fabs (fsub (val a) (val b))) (fmax (Fin 1) (fabs (val a)))) (rnd (1 / 100)))"
    by (simp add: tokenMatches_def Let_def)
  have e1: "appearsInTranscriptHuman (lit ''$4,200'') (lit ''4,200'')"
    by code_simp
  have e2: "\<not> appearsInTranscriptHuman (lit ''4200'') (lit ''4300'')"
    by code_simp
  have e3: "\<not> appearsInTranscriptHuman (lit ''50%'') (lit ''50'')"
    by code_simp
  from g e1 e2 e3 show ?thesis by blast
qed

section \<open>What the scrub branch leaves\<close>

text \<open>
  C2 asks that after grounding every numeric substring of the serialized summary is found
  in the transcript or has been replaced. The scrub branch does not rewrite the setups:
  with a target 120000 that the transcript does not have, the summary is scrubbed and
  carries the note, and the serialized result still holds 120000.
\<close>

theorem scrub_branch_keeps_setup_numbers:
  "lnote (snd (ground [lit ''BTC held 108000'']
      (emptyLong\<lparr>setups := [\<lparr>name = lit ''Breakout'', thesis = [], trigger = [],
                              invalidation = [], targets = lit ''120000''\<rparr>]\<rparr>)
      (lit ''BTC tested 108000 support''))) = Some scrubNote \<and>
   fst (ground [lit ''BTC held 108000'']
      (emptyLong\<lparr>setups := [\<lparr>name = lit ''Breakout'', thesis = [], trigger = [],
                              invalidation = [], targets = lit ''120000''\<rparr>]\<rparr>)
      (lit ''BTC tested 108000 support'')) = [lit ''BTC heldx''] \<and>
   map targets (setups (snd (ground [lit ''BTC held 108000'']
      (emptyLong\<lparr>setups := [\<lparr>name = lit ''Breakout'', thesis = [], trigger = [],
                              invalidation = [], targets = lit ''120000''\<rparr>]\<rparr>)
      (lit ''BTC tested 108000 support'')))) = [lit ''120000''] \<and>
   numMatches (serialized
      (fst (ground [lit ''BTC held 108000'']
        (emptyLong\<lparr>setups := [\<lparr>name = lit ''Breakout'', thesis = [], trigger = [],
                                invalidation = [], targets = lit ''120000''\<rparr>]\<rparr>)
        (lit ''BTC tested 108000 support'')))
      (snd (ground [lit ''BTC held 108000'']
        (emptyLong\<lparr>setups := [\<lparr>name = lit ''Breakout'', thesis = [], trigger = [],
                                invalidation = [], targets = lit ''120000''\<rparr>]\<rparr>)
        (lit ''BTC tested 108000 support'')))) = [lit ''120000''] \<and>
   \<not> appearsInTranscriptHuman (lit ''120000'') (lit ''BTC tested 108000 support'')"
  by code_simp

text \<open>
  The same through \<open>summarizeWithOpenAI\<close>, on a transcript long enough to be summarized:
  the reply's bullet is scrubbed, the note is set, the target of the setup stays.
\<close>

lemma summarizeWithOpenAI_keeps_setup_numbers:
  "summarizeWithOpenAI
     (exampleEnv\<lparr>aiReply := (\<lambda>t. Inr \<lparr>tldr = [lit ''BTC held 108000''],
        rlong = emptyLong\<lparr>setups := [\<lparr>name = lit ''Breakout'', thesis = [], trigger = [],
                                        invalidation = [], targets = lit ''120000''\<rparr>]\<rparr>\<rparr>)\<rparr>)
     \<lparr>videoId = lit ''abc'', title = lit ''Daily close'', description = [], publishedAt = [], url = []\<rparr>
     (lit ''BTC tested 108000 support today and the bulls defended it twice before the close. ETH stayed quiet. The plan is simple: watch the support, wait for volume, and do not chase any move that comes without confirmation from the daily close.'')
   = (\<lparr>video = \<lparr>videoId = lit ''abc'', title = lit ''Daily close'', description = [],
                 publishedAt = [], url = []\<rparr>,
       bullets = [lit ''BTC heldx''],
       long = Full (emptyLong\<lparr>setups := [\<lparr>name = lit ''Breakout'', thesis = [], trigger = [],
                                        invalidation = [], targets = lit ''120000''\<rparr>],
                              lnote := Some scrubNote\<rparr>)\<rparr>,
      [AiRequest (lit ''BTC tested 108000 support today and the bulls defended it twice before the close. ETH stayed quiet. The plan is simple: watch the support, wait for volume, and do not chase any move that comes without confirmation from the daily close.'')])"
  by code_simp


section \<open>Price plausibility\<close>




lemma finite_bounds:
  "flt (Fin x) (Fin y) \<longleftrightarrow> x < y"
  by (simp add: flt_def)




section \<open>The cascade\<close>

text \<open>
  The first two stages hold every failure inside: they return a text whatever the
  environment answers. The watch-page stage and the speech-to-text stage do not: a
  rejected request of the first, the failing creation of the working directory or a
  video identifier that cannot be encoded in the second, leaves the stage as an exception.
\<close>

lemma official_captions_never_throw: "\<exists>t. fetchTranscriptViaYouTubeAPI e vid = Inr t"
  by (simp add: fetchTranscriptViaYouTubeAPI_def split: sum.splits option.splits)

lemma transcript_library_never_throws: "\<exists>t. fetchTranscriptViaLib e vid = Inr t"
  by (simp add: fetchTranscriptViaLib_def)

lemma getTracksFrom_rejected:
  "httpFetch e u = Inl err \<Longrightarrow> getTracksFrom e u = Inl err"
  by (simp add: getTracksFrom_def)

lemma watch_page_rejected:
  assumes "encodeURIComponent e vid = Inr enc"
    and "httpFetch e (lit ''https://www.youtube.com/embed/'' @ vid @ lit ''?hl=en'') = Inl err"
  shows "fetchTranscriptViaWatchPage e vid = Inl err"
  using assms by (simp add: fetchTranscriptViaWatchPage_def getTracksFrom_rejected Let_def)

lemma whisper_mkdir_rejected:
  "makeWorkDir e vid = Inl err \<Longrightarrow> fetchTranscriptViaWhisper e vid = Inl err"
  by (simp add: fetchTranscriptViaWhisper_def)

lemma whisper_encode_rejected:
  "makeWorkDir e vid = Inr u \<Longrightarrow> encodeURIComponent e vid = Inl err
   \<Longrightarrow> fetchTranscriptViaWhisper e vid = Inl err"
  by (simp add: fetchTranscriptViaWhisper_def)

lemma cascade_propagates_watch_page:
  assumes "fetchTranscriptViaYouTubeAPI e vid = Inr []"
    and "fetchTranscriptViaLib e vid = Inr []"
    and "fetchTranscriptViaWatchPage e vid = Inl err"
  shows "fetchTranscriptText e vid = (Inl err, [OfficialCaptions, TranscriptLibrary, WatchPage])"
  using assms by (simp add: fetchTranscriptText_def)

text \<open>
  C4 says that no stage lets a failure out and that \<open>fetchTranscriptText\<close> never throws.
  With no credentials for the official captions, a transcript library that fails for every
  language and a network on which every request is rejected, the watch-page stage throws,
  and so does \<open>fetchTranscriptText\<close>: the request of the embed page has no try block
  around it.
\<close>

theorem watch_page_failure_escapes:
  "fetchTranscriptViaYouTubeAPI exampleEnv (lit ''abc'') = Inr [] \<and>
   fetchTranscriptViaLib exampleEnv (lit ''abc'') = Inr [] \<and>
   fetchTranscriptViaWatchPage exampleEnv (lit ''abc'') = Inl (Thrown (lit ''fetch failed'')) \<and>
   fetchTranscriptText exampleEnv (lit ''abc'')
     = (Inl (Thrown (lit ''fetch failed'')), [OfficialCaptions, TranscriptLibrary, WatchPage]) \<and>
   summarizeItem exampleEnv
     \<lparr>videoId = lit ''abc'', title = lit ''Daily close'', description = [], publishedAt = [], url = []\<rparr>
     = (Inl (Thrown (lit ''fetch failed'')), [OfficialCaptions, TranscriptLibrary, WatchPage], [])"
  by code_simp

section \<open>The summarizers on a missing transcript\<close>

lemma tokenizeSentences_empty: "tokenizeSentences [] = []"
  by (simp add: tokenizeSentences_def collapseWs_def trim_def)

lemma summarizeFree_empty: "summarizeFree e v [] = (skippedSummary v, [])"
  by (simp add: summarizeFree_def tokenizeSentences_empty)

lemma summarizeWithOpenAI_short:
  "length (trim transcript) < 200 \<Longrightarrow> summarizeWithOpenAI e v transcript = (skippedSummary v, [])"
  by (simp add: summarizeWithOpenAI_def)

lemma trim_empty: "trim [] = []"
  by (simp add: trim_def)

text \<open>
  C5. The stages are called in the fixed order official captions, transcript library,
  watch page, speech to text, and a later one only when every earlier one returned the
  empty text: when the first two return it, the watch page is tried; when all four return
  it, \<open>fetchTranscriptText\<close> returns the empty string, and \<open>summarizeItem\<close> returns, without
  an exception, the summary whose only bullet is the placeholder of an unavailable
  transcript and whose long form is the skipped marker.
\<close>

theorem cascade_order_and_fallthrough:
  "snd (fetchTranscriptText e vid) \<in>
     {[OfficialCaptions], [OfficialCaptions, TranscriptLibrary],
      [OfficialCaptions, TranscriptLibrary, WatchPage],
      [OfficialCaptions, TranscriptLibrary, WatchPage, OfflineSTT]} \<and>
   (TranscriptLibrary \<in> set (snd (fetchTranscriptText e vid)) \<longrightarrow>
      fetchTranscriptViaYouTubeAPI e vid = Inr []) \<and>
   (WatchPage \<in> set (snd (fetchTranscriptText e vid)) \<longrightarrow>
      fetchTranscriptViaYouTubeAPI e vid = Inr [] \<and> fetchTranscriptViaLib e vid = Inr []) \<and>
   (OfflineSTT \<in> set (snd (fetchTranscriptText e vid)) \<longrightarrow>
      fetchTranscriptViaYouTubeAPI e vid = Inr [] \<and> fetchTranscriptViaLib e vid = Inr [] \<and>
      fetchTranscriptViaWatchPage e vid = Inr []) \<and>
   (fetchTranscriptViaYouTubeAPI e vid = Inr [] \<and> fetchTranscriptViaLib e vid = Inr [] \<longrightarrow>
      WatchPage \<in> set (snd (fetchTranscriptText e vid))) \<and>
   (fetchTranscriptViaYouTubeAPI e vid = Inr [] \<and> fetchTranscriptViaLib e vid = Inr [] \<and>
    fetchTranscriptViaWatchPage e vid = Inr [] \<and> fetchTranscriptViaWhisper e vid = Inr [] \<longrightarrow>
      fetchTranscriptText e vid
        = (Inr [], [OfficialCaptions, TranscriptLibrary, WatchPage, OfflineSTT]) \<and>
      (videoId v = vid \<longrightarrow>
         summarizeItem e v
           = (Inr \<lparr>video = v, bullets = [unavailableBullet], long = Skipped\<rparr>,
              [OfficialCaptions, TranscriptLibrary, WatchPage, OfflineSTT], []))) \<and>
   summarizeFree e v [] = (\<lparr>video = v, bullets = [unavailableBullet], long = Skipped\<rparr>, []) \<and>
   summarizeWithOpenAI e v [] = (\<lparr>video = v, bullets = [unavailableBullet], long = Skipped\<rparr>, [])"
proof -
  have order: "snd (fetchTranscriptText e vid) \<in>
     {[OfficialCaptions], [OfficialCaptions, TranscriptLibrary],
      [OfficialCaptions, TranscriptLibrary, WatchPage],
      [OfficialCaptions, TranscriptLibrary, WatchPage, OfflineSTT]}"
    by (simp add: fetchTranscriptText_def split: sum.splits)
  have s2: "TranscriptLibrary \<in> set (snd (fetchTranscriptText e vid)) \<longrightarrow>
      fetchTranscriptViaYouTubeAPI e vid = Inr []"
    by (simp add: fetchTranscriptText_def split: sum.splits)
  have s3: "WatchPage \<in> set (snd (fetchTranscriptText e vid)) \<longrightarrow>
      fetchTranscriptViaYouTubeAPI e vid = Inr [] \<and> fetchTranscriptViaLib e vid = Inr []"
    by (simp add: fetchTranscriptText_def split: sum.splits)
  have s4: "OfflineSTT \<in> set (snd (fetchTranscriptText e vid)) \<longrightarrow>
      fetchTranscriptViaYouTubeAPI e vid = Inr [] \<and> fetchTranscriptViaLib e vid = Inr [] \<and>
      fetchTranscriptViaWatchPage e vid = Inr []"
    by (simp add: fetchTranscriptText_def split: sum.splits)
  have a3: "fetchTranscriptViaYouTubeAPI e vid = Inr [] \<and> fetchTranscriptViaLib e vid = Inr [] \<longrightarrow>
      WatchPage \<in> set (snd (fetchTranscriptText e vid))"
    by (simp add: fetchTranscriptText_def split: sum.splits)
  have all: "fetchTranscriptViaYouTubeAPI e vid = Inr [] \<and> fetchTranscriptViaLib e vid = Inr [] \<and>
    fetchTranscriptViaWatchPage e vid = Inr [] \<and> fetchTranscriptViaWhisper e vid = Inr [] \<longrightarrow>
      fetchTranscriptText e vid
        = (Inr [], [OfficialCaptions, TranscriptLibrary, WatchPage, OfflineSTT]) \<and>
      (videoId v = vid \<longrightarrow>
         summarizeItem e v
           = (Inr \<lparr>video = v, bullets = [unavailableBullet], long = Skipped\<rparr>,
              [OfficialCaptions, TranscriptLibrary, WatchPage, OfflineSTT], []))"
  proof (intro impI conjI)
    assume h: "fetchTranscriptViaYouTubeAPI e vid = Inr [] \<and> fetchTranscriptViaLib e vid = Inr [] \<and>
      fetchTranscriptViaWatchPage e vid = Inr [] \<and> fetchTranscriptViaWhisper e vid = Inr []"
    then show f: "fetchTranscriptText e vid
        = (Inr [], [OfficialCaptions, TranscriptLibrary, WatchPage, OfflineSTT])"
      by (simp add: fetchTranscriptText_def)
    assume "videoId v = vid"
    with f show "summarizeItem e v
           = (Inr \<lparr>video = v, bullets = [unavailableBullet], long = Skipped\<rparr>,
              [OfficialCaptions, TranscriptLibrary, WatchPage, OfflineSTT], [])"
      by (simp add: summarizeItem_def summarizeFree_empty summarizeWithOpenAI_short trim_empty
          skippedSummary_def)
  qed
  have fr: "summarizeFree e v [] = (\<lparr>video = v, bullets = [unavailableBullet], long = Skipped\<rparr>, [])"
    by (simp add: summarizeFree_empty skippedSummary_def)
  have ai: "summarizeWithOpenAI e v []
      = (\<lparr>video = v, bullets = [unavailableBullet], long = Skipped\<rparr>, [])"
    by (simp add: summarizeWithOpenAI_short trim_empty skippedSummary_def)
  from order s2 s3 s4 a3 all fr ai show ?thesis by blast
qed

theorem cascade_order_and_fallthrough_witness:
  "fetchTranscriptViaYouTubeAPI
     (exampleEnv\<lparr>httpFetch := (\<lambda>u. Inr \<lparr>res_ok = False, res_text = Inr []\<rparr>)\<rparr>) (lit ''abc'') = Inr [] \<and>
   fetchTranscriptViaLib
     (exampleEnv\<lparr>httpFetch := (\<lambda>u. Inr \<lparr>res_ok = False, res_text = Inr []\<rparr>)\<rparr>) (lit ''abc'') = Inr [] \<and>
   fetchTranscriptViaWatchPage
     (exampleEnv\<lparr>httpFetch := (\<lambda>u. Inr \<lparr>res_ok = False, res_text = Inr []\<rparr>)\<rparr>) (lit ''abc'') = Inr [] \<and>
   fetchTranscriptViaWhisper
     (exampleEnv\<lparr>httpFetch := (\<lambda>u. Inr \<lparr>res_ok = False, res_text = Inr []\<rparr>)\<rparr>) (lit ''abc'') = Inr [] \<and>
   WatchPage \<in> set (snd (fetchTranscriptText
     (exampleEnv\<lparr>httpFetch := (\<lambda>u. Inr \<lparr>res_ok = False, res_text = Inr []\<rparr>)\<rparr>) (lit ''abc''))) \<and>
   fetchTranscriptText
     (exampleEnv\<lparr>httpFetch := (\<lambda>u. Inr \<lparr>res_ok = False, res_text = Inr []\<rparr>)\<rparr>) (lit ''abc'')
     = (Inr [], [OfficialCaptions, TranscriptLibrary, WatchPage, OfflineSTT]) \<and>
   summarizeItem
     (exampleEnv\<lparr>httpFetch := (\<lambda>u. Inr \<lparr>res_ok = False, res_text = Inr []\<rparr>)\<rparr>)
     \<lparr>videoId = lit ''abc'', title = lit ''Daily close'', description = [], publishedAt = [], url = []\<rparr>
     = (Inr \<lparr>video = \<lparr>videoId = lit ''abc'', title = lit ''Daily close'', description = [],
                       publishedAt = [], url = []\<rparr>,
             bullets = [unavailableBullet], long = Skipped\<rparr>,
        [OfficialCaptions, TranscriptLibrary, WatchPage, OfflineSTT], [])"
proof -
  let ?e = "exampleEnv\<lparr>httpFetch := (\<lambda>u. Inr \<lparr>res_ok = False, res_text = Inr []\<rparr>)\<rparr>"
  let ?v = "\<lparr>videoId = lit ''abc'', title = lit ''Daily close'', description = [],
             publishedAt = [], url = []\<rparr>"
  have h1: "fetchTranscriptViaYouTubeAPI ?e (lit ''abc'') = Inr []" by code_simp
  have h2: "fetchTranscriptViaLib ?e (lit ''abc'') = Inr []" by code_simp
  have h3: "fetchTranscriptViaWatchPage ?e (lit ''abc'') = Inr []" by code_simp
  have h4: "fetchTranscriptViaWhisper ?e (lit ''abc'') = Inr []" by code_simp
  have v: "videoId ?v = lit ''abc''" by simp
  note T = cascade_order_and_fallthrough [of ?e "lit ''abc''" ?v]
  from T h1 h2 have w: "WatchPage \<in> set (snd (fetchTranscriptText ?e (lit ''abc'')))"
    by blast
  from T h1 h2 h3 h4 have f: "fetchTranscriptText ?e (lit ''abc'')
      = (Inr [], [OfficialCaptions, TranscriptLibrary, WatchPage, OfflineSTT])"
    by blast
  from T h1 h2 h3 h4 v have s: "summarizeItem ?e ?v
      = (Inr \<lparr>video = ?v, bullets = [unavailableBullet], long = Skipped\<rparr>,
         [OfficialCaptions, TranscriptLibrary, WatchPage, OfflineSTT], [])"
    by blast
  from h1 h2 h3 h4 w f s show ?thesis by blast
qed

text \<open>
  C8. On a transcript whose trimmed length is below 200, \<open>summarizeWithOpenAI\<close> returns
  the placeholder summary with the skipped marker, and no request goes out: the list of
  effects is empty, whatever the text-generation service would have answered.
\<close>

theorem short_transcript_short_circuit:
  assumes "length (trim transcript) < 200"
  shows "summarizeWithOpenAI e v transcript
           = (\<lparr>video = v, bullets = [unavailableBullet], long = Skipped\<rparr>, []) \<and>
         summarizeWithOpenAI (e\<lparr>aiReply := r\<rparr>) v transcript
           = (\<lparr>video = v, bullets = [unavailableBullet], long = Skipped\<rparr>, [])"
  using assms by (simp add: summarizeWithOpenAI_short skippedSummary_def)

theorem short_transcript_short_circuit_witness:
  "length (trim (lit ''  BTC tested 108000 support.  '')) < 200 \<and>
   summarizeWithOpenAI
     (exampleEnv\<lparr>aiReply := (\<lambda>t. Inr \<lparr>tldr = [lit ''BTC to 1,000,000''], rlong = emptyLong\<rparr>)\<rparr>)
     \<lparr>videoId = lit ''abc'', title = lit ''Daily close'', description = [], publishedAt = [], url = []\<rparr>
     (lit ''  BTC tested 108000 support.  '')
   = (\<lparr>video = \<lparr>videoId = lit ''abc'', title = lit ''Daily close'', description = [],
                 publishedAt = [], url = []\<rparr>,
       bullets = [unavailableBullet], long = Skipped\<rparr>, [])"
proof -
  have h: "length (trim (lit ''  BTC tested 108000 support.  '')) < 200" by code_simp
  show ?thesis
    using h short_transcript_short_circuit [OF h, of exampleEnv _
        "\<lambda>t. Inr \<lparr>tldr = [lit ''BTC to 1,000,000''], rlong = emptyLong\<rparr>"]
    by simp
qed

section \<open>Normalizing twice\<close>

text \<open>
  C7 asks for \<open>normalizeForFinance\<close> to be idempotent. The zero-width marks are removed
  after the Unicode normalization, so what the removal brings together is not normalized
  again: the letter e, a zero-width space and a combining acute accent become e and the
  accent, and a second normalization composes the two.
\<close>

theorem normalize_twice_differs:
  "normalizeForFinance exampleEnv [101, 8203, 769] = [101, 769] \<and>
   normalizeForFinance exampleEnv (normalizeForFinance exampleEnv [101, 8203, 769]) = [233]"
  by code_simp

text \<open>The same for every host whose normalization does what Unicode says on the two strings.\<close>

lemma normalize_not_idempotent_any_host:
  assumes "nfkc e [101, 8203, 769] = [101, 8203, 769]" and "nfkc e [101, 769] = [233]"
  shows "normalizeForFinance e (normalizeForFinance e [101, 8203, 769])
           \<noteq> normalizeForFinance e [101, 8203, 769]"
proof -
  have a: "normalizeForFinance e [101, 8203, 769] = [101, 769]"
    unfolding normalizeForFinance_def normalizeTextBasic_def assms by code_simp
  have b: "normalizeForFinance e [101, 769] = [233]"
    unfolding normalizeForFinance_def normalizeTextBasic_def assms by code_simp
  show ?thesis by (simp add: a b)
qed
end
